theory Spec2Isabelle
  imports Main
begin

section \<open>Data model\<close>

text \<open>
  A shallow embedding of \<^verbatim>\<open>functorch/csrc/BatchRulesRandomness.cpp\<close>: the batching
  rules vmap installs for the random operators.  The three rule templates, the two
  bounded-integer wrappers, the five helper structs and the registration macros are
  translated from the source.  What the file only uses (the transform-layer stack, the
  batched-tensor wrapper, \<^verbatim>\<open>at::empty\<close>, \<^verbatim>\<open>copy_\<close>, \<^verbatim>\<open>at::stack\<close>) is not in
  the file; it is modelled from the specification and marked so.  The real random
  operators are the template parameter \<^verbatim>\<open>Func\<close> and stay parameters here
  (written \<open>Func'\<close>).
\<close>

datatype RandomnessType = Error | Same | Different

text \<open>The part of \<^verbatim>\<open>DynamicLayer\<close> the rules read: three \<^verbatim>\<open>int64_t\<close>/enum getters.\<close>

record DynamicLayer =
  layerId :: int
  batchSize :: int
  randomness :: RandomnessType

datatype DispatchKey = FuncTorchBatched | FuncTorchVmapMode

definition kVmapModeKey :: DispatchKey where
  "kVmapModeKey = FuncTorchVmapMode"

text \<open>
  A dense tensor is a strided view of a storage: element \<open>idx\<close> of the view lives at
  \<open>storage_offset + \<Sum> idx\<^sub>k * strides\<^sub>k\<close> of storage number \<open>storage\<close> of the heap.  Two
  handles with the same \<open>storage\<close> alias each other, which is how an in-place operator
  run on a view reaches the tensor it was taken from.
\<close>

type_synonym TensorOptions = nat

record TensorImpl =
  storage :: nat
  storage_offset :: nat
  sizes :: "nat list"
  strides :: "nat list"
  options :: TensorOptions

text \<open>
  \<^verbatim>\<open>Tensor\<close>: a default-constructed (undefined) handle, a dense tensor, or a
  \<^verbatim>\<open>BatchedTensorImpl\<close> wrapping a value with its batch dimension and vmap level.
\<close>

datatype Tensor =
    UndefinedTensor
  | Dense TensorImpl
  | BatchedTensor Tensor int int

text \<open>
  The two \<^verbatim>\<open>TORCH_CHECK\<close> failures of the file carry the names the specification gives
  them; the others are failures of the C++ library and of the external operators.
\<close>

datatype error =
    RandomnessModeError
  | UnsupportedInplaceRandomnessError
  | BadOptionalAccess
  | LengthError
  | OutOfBounds
  | IndexError
  | RuntimeError string

type_synonym scalar = int

text \<open>
  What the tensor runtime owns and a real operator may change: the storages (a cell is
  \<open>None\<close> until it is written, as \<^verbatim>\<open>at::empty\<close> leaves it) and the state of the
  random generator.
\<close>

record 'g runtime =
  heap :: "scalar option list list"
  generator :: 'g

text \<open>The calls into the external tensor library, in the order they are made.\<close>

datatype 'a call =
    CallOp 'a
  | CallEmpty "int list" TensorOptions
  | CallCopy Tensor Tensor
  | CallStack "Tensor list"

record ('g, 'a) world =
  rt :: "'g runtime"
  dynamicLayerStack :: "DynamicLayer list"
  tls_excluded :: "DispatchKey set"
  calls :: "'a call list"

section \<open>Exceptions and state\<close>

text \<open>
  A C++ function that may throw and that changes the world: it returns the exception or
  the value, and the world as it is at that moment (what was done before a throw stays
  done).
\<close>

type_synonym ('r, 'w) M = "'w \<Rightarrow> (error + 'r) \<times> 'w"

definition returnM :: "'r \<Rightarrow> ('r, 'w) M" where
  "returnM x = (\<lambda>w. (Inr x, w))"

definition throwM :: "error \<Rightarrow> ('r, 'w) M" where
  "throwM e = (\<lambda>w. (Inl e, w))"

definition bindM :: "('r, 'w) M \<Rightarrow> ('r \<Rightarrow> ('s, 'w) M) \<Rightarrow> ('s, 'w) M" where
  "bindM m f = (\<lambda>w. case m w of (Inl e, w') \<Rightarrow> (Inl e, w') | (Inr x, w') \<Rightarrow> f x w')"

definition liftE :: "error + 'r \<Rightarrow> ('r, 'w) M" where
  "liftE r = (\<lambda>w. (r, w))"

definition TORCH_CHECK :: "bool \<Rightarrow> error \<Rightarrow> (unit, 'w) M" where
  "TORCH_CHECK cond e = (if cond then returnM () else throwM e)"

section \<open>The collaborators the rules call\<close>

subsection \<open>The transform-layer stack and the dispatch-key guard\<close>

text \<open>
  Modelled from the spec: \<^verbatim>\<open>maybeCurrentDynamicLayer\<close> (DynamicLayer.h), the innermost
  active vmap layer, absent when no transform is active.
\<close>

definition maybeCurrentDynamicLayer :: "(DynamicLayer option, ('g, 'a) world) M" where
  "maybeCurrentDynamicLayer =
     (\<lambda>w. (Inr (if dynamicLayerStack w = [] then None else Some (last (dynamicLayerStack w))), w))"

text \<open>
  \<^verbatim>\<open>maybe_layer->\<close> on an empty optional is undefined behaviour in C++; the model makes
  it the failure \<open>BadOptionalAccess\<close>.
\<close>

definition deref :: "'x option \<Rightarrow> ('x, 'w) M" where
  "deref m = (case m of None \<Rightarrow> throwM BadOptionalAccess | Some x \<Rightarrow> returnM x)"

text \<open>
  Modelled from the spec: \<^verbatim>\<open>c10::impl::ExcludeDispatchKeyGuard\<close>, the scoped guard that
  suspends re-interception: it adds the key to the thread's excluded set unless it is
  there already, and on every exit path removes what it added.
\<close>

definition ExcludeDispatchKeyGuard :: "DispatchKey \<Rightarrow> ('r, ('g, 'a) world) M \<Rightarrow> ('r, ('g, 'a) world) M" where
  "ExcludeDispatchKeyGuard k body =
     (\<lambda>w. case body (w\<lparr>tls_excluded := insert k (tls_excluded w)\<rparr>) of
        (r, w') \<Rightarrow>
          (r, w'\<lparr>tls_excluded :=
                  (if k \<in> tls_excluded w then tls_excluded w' else tls_excluded w' - {k})\<rparr>))"

subsection \<open>Real operators\<close>

text \<open>
  \<^verbatim>\<open>ATEN_FN(op)\<close>: the real, non-intercepted operator.  Its semantics \<open>op\<close> is a
  parameter: a function of the operator's arguments, in the operator's native order,
  on the tensor runtime.  Calling it is recorded in \<open>calls\<close>.
\<close>

definition ATEN_FN ::
  "('a \<Rightarrow> 'g runtime \<Rightarrow> (error + 'r) \<times> 'g runtime) \<Rightarrow> 'a \<Rightarrow> ('r, ('g, 'a) world) M" where
  "ATEN_FN op args =
     (\<lambda>w. case op args (rt w) of
        (r, rt') \<Rightarrow> (r, w\<lparr>rt := rt', calls := calls w @ [CallOp args]\<rparr>))"

subsection \<open>Batched tensors\<close>

text \<open>
  Modelled from the spec: \<^verbatim>\<open>makeBatched\<close> (BatchedTensorImpl.h), "wrap plain tensor +
  dimension index + layer id into a Batched Result".
\<close>

definition makeBatched :: "Tensor \<Rightarrow> int \<Rightarrow> int \<Rightarrow> Tensor" where
  "makeBatched tensor bdim level = BatchedTensor tensor bdim level"

text \<open>
  Modelled from the spec: \<^verbatim>\<open>unwrapTensorAtLevel\<close> (BatchedTensorImpl.h), "given a tensor
  and a layer id, produce (unwrapped value, optional existing batch-dimension index)".
  A tensor that is not batched at that level comes back as it is, with no index.
\<close>

definition unwrapTensorAtLevel :: "Tensor \<Rightarrow> int \<Rightarrow> Tensor \<times> int option" where
  "unwrapTensorAtLevel tensor level =
     (case tensor of
        BatchedTensor v b l \<Rightarrow> if l = level then (v, Some b) else (tensor, None)
      | _ \<Rightarrow> (tensor, None))"

definition remove_dim :: "nat \<Rightarrow> 'x list \<Rightarrow> 'x list" where
  "remove_dim d xs = take d xs @ drop (Suc d) xs"

definition insert_dim :: "nat \<Rightarrow> 'x \<Rightarrow> 'x list \<Rightarrow> 'x list" where
  "insert_dim d x xs = take d xs @ x # drop d xs"

definition to_front :: "nat \<Rightarrow> 'x list \<Rightarrow> 'x list" where
  "to_front d xs = xs ! d # remove_dim d xs"

text \<open>
  Modelled from the spec: \<^verbatim>\<open>Tensor::sizes()\<close> and \<^verbatim>\<open>Tensor::options()\<close>.  A batched
  tensor shows its logical shape: the shape of its value without the batch dimension.
\<close>

fun tensor_sizes :: "Tensor \<Rightarrow> error + nat list" where
  "tensor_sizes UndefinedTensor = Inl (RuntimeError ''sizes() called on an undefined Tensor'')"
| "tensor_sizes (Dense t) = Inr (sizes t)"
| "tensor_sizes (BatchedTensor v b l) =
     (case tensor_sizes v of
        Inl e \<Rightarrow> Inl e
      | Inr sz \<Rightarrow> if 0 \<le> b \<and> nat b < length sz then Inr (remove_dim (nat b) sz) else Inl IndexError)"

fun tensor_options :: "Tensor \<Rightarrow> error + TensorOptions" where
  "tensor_options UndefinedTensor = Inl (RuntimeError ''options() called on an undefined Tensor'')"
| "tensor_options (Dense t) = Inr (options t)"
| "tensor_options (BatchedTensor v b l) = tensor_options v"

text \<open>
  Modelled from the spec: \<^verbatim>\<open>tensor.movedim(d, 0)\<close>, "move a named dimension to front
  position": a view of the same storage with dimension \<open>d\<close> first.  On a batched value
  the logical dimension \<open>d\<close> is moved and the batch dimension keeps its place among the
  others.
\<close>

fun movedim_front :: "Tensor \<Rightarrow> nat \<Rightarrow> error + Tensor" where
  "movedim_front UndefinedTensor d = Inl (RuntimeError ''movedim on an undefined Tensor'')"
| "movedim_front (Dense t) d =
     (if d < length (sizes t) \<and> d < length (strides t)
      then Inr (Dense (t\<lparr>sizes := to_front d (sizes t), strides := to_front d (strides t)\<rparr>))
      else Inl IndexError)"
| "movedim_front (BatchedTensor v b l) d =
     (let d' = (if int d < b then d else Suc d) in
      case movedim_front v d' of
        Inl e \<Rightarrow> Inl e
      | Inr v' \<Rightarrow> Inr (BatchedTensor v' (if b < int d' then b + 1 else b) l))"

text \<open>
  Modelled from the spec: \<^verbatim>\<open>moveBatchDimToFront\<close> (BatchRulesHelper.h), "move any
  existing batch dimension to the front"; nothing to do without one, or when it is
  first already.
\<close>

definition moveBatchDimToFront :: "Tensor \<Rightarrow> int option \<Rightarrow> error + Tensor" where
  "moveBatchDimToFront tensor maybe_batch_dim =
     (case maybe_batch_dim of
        None \<Rightarrow> Inr tensor
      | Some bd \<Rightarrow>
          if bd = 0 then Inr tensor
          else if bd < 0 then Inl IndexError
          else movedim_front tensor (nat bd))"

subsection \<open>Dense storage: allocation, copy, stack\<close>

text \<open>The index tuples of a shape, in row-major order, and where a view keeps each.\<close>

fun indices :: "nat list \<Rightarrow> nat list list" where
  "indices [] = [[]]"
| "indices (n # ns) = concat (map (\<lambda>i. map ((#) i) (indices ns)) [0..<n])"

definition offset_of :: "TensorImpl \<Rightarrow> nat list \<Rightarrow> nat" where
  "offset_of t idx = storage_offset t + sum_list (map2 (*) idx (strides t))"

definition read_cell :: "scalar option list list \<Rightarrow> TensorImpl \<Rightarrow> nat list \<Rightarrow> scalar option" where
  "read_cell h t idx = h ! storage t ! offset_of t idx"

definition write_cell :: "scalar option list list \<Rightarrow> TensorImpl \<Rightarrow> nat list \<Rightarrow> scalar option \<Rightarrow> scalar option list list" where
  "write_cell h t idx c = h[storage t := (h ! storage t)[offset_of t idx := c]]"

definition contents :: "scalar option list list \<Rightarrow> TensorImpl \<Rightarrow> scalar option list" where
  "contents h t = map (read_cell h t) (indices (sizes t))"

fun contiguous_strides :: "nat list \<Rightarrow> nat list" where
  "contiguous_strides [] = []"
| "contiguous_strides (n # ns) = prod_list ns # contiguous_strides ns"

text \<open>
  Modelled from the spec: \<^verbatim>\<open>at::empty(sizes, options)\<close>, "allocate a fresh ... scratch
  value": a new storage, nothing written in it, and a contiguous dense tensor on it.
\<close>

definition at_empty :: "int list \<Rightarrow> TensorOptions \<Rightarrow> (Tensor, ('g, 'a) world) M" where
  "at_empty size' opts =
     (\<lambda>w. let w1 = w\<lparr>calls := calls w @ [CallEmpty size' opts]\<rparr>;
              h = heap (rt w);
              sz = map nat size'
          in if list_ex (\<lambda>s. s < 0) size'
             then (Inl (RuntimeError ''empty: negative dimension''), w1)
             else (Inr (Dense \<lparr>storage = length h, storage_offset = 0, sizes = sz,
                               strides = contiguous_strides sz, options = opts\<rparr>),
                   w1\<lparr>rt := (rt w)\<lparr>heap := h @ [replicate (prod_list sz) None]\<rparr>\<rparr>))"

text \<open>Element by element, in row-major order of the destination's indices.\<close>

definition dense_copy :: "TensorImpl \<Rightarrow> TensorImpl \<Rightarrow> scalar option list list \<Rightarrow> scalar option list list" where
  "dense_copy dst src h =
     fold (\<lambda>idx h'. write_cell h' dst idx (read_cell h' src idx)) (indices (sizes dst)) h"

definition expand_dim :: "nat \<Rightarrow> nat \<Rightarrow> TensorImpl \<Rightarrow> TensorImpl" where
  "expand_dim d n s = s\<lparr>sizes := insert_dim d n (sizes s), strides := insert_dim d 0 (strides s)\<rparr>"

text \<open>
  Modelled from the spec: \<^verbatim>\<open>self.copy_(src)\<close> on a batched \<open>self\<close>, "copy the scratch
  value's contents into every slot of target (broadcast copy)".  The source is a dense
  tensor of the target's logical shape; for a batched target it is expanded along the
  target's batch dimension (a dimension of stride 0, so every slot reads the same
  cells) and copied into the value.
\<close>

fun copy_into :: "Tensor \<Rightarrow> TensorImpl \<Rightarrow> scalar option list list \<Rightarrow> error + scalar option list list" where
  "copy_into UndefinedTensor s h = Inl (RuntimeError ''copy_ on an undefined Tensor'')"
| "copy_into (Dense d) s h =
     (if sizes d = sizes s then Inr (dense_copy d s h)
      else Inl (RuntimeError ''copy_: the source has not the shape of the target''))"
| "copy_into (BatchedTensor v b l) s h =
     (case tensor_sizes v of
        Inl e \<Rightarrow> Inl e
      | Inr sz \<Rightarrow>
          if 0 \<le> b \<and> nat b < length sz
          then copy_into v (expand_dim (nat b) (sz ! nat b) s) h
          else Inl IndexError)"

definition tensor_copy :: "Tensor \<Rightarrow> Tensor \<Rightarrow> (unit, ('g, 'a) world) M" where
  "tensor_copy self src =
     (\<lambda>w. let w1 = w\<lparr>calls := calls w @ [CallCopy self src]\<rparr> in
          case src of
            Dense s \<Rightarrow>
              (case copy_into self s (heap (rt w)) of
                 Inl e \<Rightarrow> (Inl e, w1)
               | Inr h' \<Rightarrow> (Inr (), w1\<lparr>rt := (rt w)\<lparr>heap := h'\<rparr>\<rparr>))
          | _ \<Rightarrow> (Inl (RuntimeError ''copy_: the source is not a dense tensor''), w1))"

text \<open>
  Modelled from the spec: \<^verbatim>\<open>at::stack(tensors)\<close>, "stack the sequence ... along a new
  leading dimension": a fresh contiguous tensor whose row \<open>i\<close> holds the contents of
  the \<open>i\<close>-th tensor.  The row shape is read off the tensors, so an empty list is
  refused, as are tensors of different shapes.
\<close>

fun dense_list :: "Tensor list \<Rightarrow> TensorImpl list option" where
  "dense_list [] = Some []"
| "dense_list (Dense t # ts) = (case dense_list ts of None \<Rightarrow> None | Some us \<Rightarrow> Some (t # us))"
| "dense_list (_ # ts) = None"

definition at_stack :: "Tensor list \<Rightarrow> (Tensor, ('g, 'a) world) M" where
  "at_stack tensors =
     (\<lambda>w. let w1 = w\<lparr>calls := calls w @ [CallStack tensors]\<rparr>;
              h = heap (rt w)
          in case dense_list tensors of
               None \<Rightarrow> (Inl (RuntimeError ''stack: a tensor is not dense''), w1)
             | Some [] \<Rightarrow> (Inl (RuntimeError ''stack expects a non-empty TensorList''), w1)
             | Some (t # ts) \<Rightarrow>
                 if list_all (\<lambda>u. sizes u = sizes t) ts
                 then (Inr (Dense \<lparr>storage = length h, storage_offset = 0,
                                   sizes = Suc (length ts) # sizes t,
                                   strides = contiguous_strides (Suc (length ts) # sizes t),
                                   options = options t\<rparr>),
                       w1\<lparr>rt := (rt w)\<lparr>heap := h @ [concat (map (contents h) (t # ts))]\<rparr>\<rparr>)
                 else (Inl (RuntimeError ''stack expects each tensor to be equal size''), w1))"

text \<open>
  \<^verbatim>\<open>std::vector<at::Tensor>::max_size()\<close>: the largest element count the vector
  accepts, \<^verbatim>\<open>PTRDIFF_MAX / sizeof(at::Tensor)\<close>, with a 64-bit \<^verbatim>\<open>ptrdiff_t\<close> and
  \<^verbatim>\<open>at::Tensor\<close> one pointer of 8 bytes.
\<close>

definition max_size :: int where
  "max_size = (2 ^ 63 - 1) div 8"

text \<open>
  \<^verbatim>\<open>std::vector<at::Tensor> v(n)\<close> with \<open>n\<close> an \<^verbatim>\<open>int64_t\<close>: \<open>n\<close> default-constructed
  tensors.  The constructor throws \<^verbatim>\<open>std::length_error\<close> for a count beyond
  \<^verbatim>\<open>max_size()\<close>; a negative \<open>n\<close> converts to a \<^verbatim>\<open>size_t\<close> of at least \<open>2 ^ 63\<close>,
  which is beyond it too.  As for every allocation here (\<open>at_empty\<close>, \<open>at_stack\<close>),
  the memory is taken to be there: \<^verbatim>\<open>std::bad_alloc\<close> is not a branch.
\<close>

definition std_vector :: "int \<Rightarrow> (Tensor list, 'w) M" where
  "std_vector n =
     (if n < 0 \<or> max_size < n then throwM LengthError
      else returnM (replicate (nat n) UndefinedTensor))"


section \<open>The rules of BatchRulesRandomness.cpp\<close>

definition check_randomness :: "RandomnessType \<Rightarrow> (unit, 'w) M" where
  "check_randomness randomness' = TORCH_CHECK (randomness' \<noteq> Error) RandomnessModeError"

text \<open>
  \<^verbatim>\<open>random_batching_rule<F, Func, ExtraArgs...>\<close>.  The pack \<open>extra_args\<close> is one value
  of any type.
\<close>

definition random_batching_rule ::
  "(int list \<Rightarrow> 'x \<Rightarrow> (Tensor, ('g, 'a) world) M) \<Rightarrow> int list \<Rightarrow> 'x \<Rightarrow> (Tensor, ('g, 'a) world) M" where
  "random_batching_rule Func' shape extra_args =
     ExcludeDispatchKeyGuard kVmapModeKey
       (bindM maybeCurrentDynamicLayer (\<lambda>maybe_layer.
        bindM (deref maybe_layer) (\<lambda>layer.
        let shapeVec = [batchSize layer] @ shape;
            randomness' = randomness layer
        in bindM (check_randomness randomness') (\<lambda>_.
           if randomness' = Different
           then bindM (Func' shapeVec extra_args) (\<lambda>res.
                returnM (makeBatched res 0 (layerId layer)))
           else Func' shape extra_args))))"

text \<open>
  \<^verbatim>\<open>random_inplace_batching_rule<F, Func, ExtraArgs...>\<close>.  \<open>self\<close> is a handle: the
  operator reaches the tensor through the heap, and the handle itself is returned.
\<close>

definition random_inplace_batching_rule ::
  "(Tensor \<Rightarrow> 'x \<Rightarrow> (Tensor, ('g, 'a) world) M) \<Rightarrow> Tensor \<Rightarrow> 'x \<Rightarrow> (Tensor, ('g, 'a) world) M" where
  "random_inplace_batching_rule Func' self extra_args =
     ExcludeDispatchKeyGuard kVmapModeKey
       (bindM maybeCurrentDynamicLayer (\<lambda>maybe_layer.
        bindM (deref maybe_layer) (\<lambda>layer.
        let cur_level = layerId layer in
        case unwrapTensorAtLevel self cur_level of (self_value0, self_bdim) \<Rightarrow>
        bindM (liftE (moveBatchDimToFront self_value0 self_bdim)) (\<lambda>self_value.
        let randomness' = randomness layer in
        bindM (check_randomness randomness') (\<lambda>_.
        bindM (TORCH_CHECK (\<not> (randomness' = Different \<and> self_bdim = None))
                 UnsupportedInplaceRandomnessError) (\<lambda>_.
        if randomness' = Same \<and> self_bdim \<noteq> None
        then bindM (liftE (tensor_sizes self)) (\<lambda>self_sizes.
             bindM (liftE (tensor_options self)) (\<lambda>self_options.
             bindM (at_empty (map int self_sizes) self_options) (\<lambda>intermediate.
             bindM (Func' intermediate extra_args) (\<lambda>_.
             bindM (tensor_copy self intermediate) (\<lambda>_.
             returnM self)))))
        else bindM (Func' self_value extra_args) (\<lambda>_.
             returnM self)))))))"

text \<open>
  The loop of \<^verbatim>\<open>randperm_batching_rule\<close>:
  \<^verbatim>\<open>for (int64_t idx = 0; idx < batch_size; ++idx) stackedList[idx] = Func(n, extra_args...);\<close>
  An index outside the vector is undefined behaviour in C++ and the failure
  \<open>OutOfBounds\<close> here.
\<close>

function randperm_loop ::
  "(int \<Rightarrow> 'x \<Rightarrow> (Tensor, 'w) M) \<Rightarrow> int \<Rightarrow> 'x \<Rightarrow> int \<Rightarrow> int \<Rightarrow> Tensor list \<Rightarrow> (Tensor list, 'w) M" where
  "randperm_loop Func' n extra_args batch_size idx stackedList w =
     (if idx < batch_size
      then (case Func' n extra_args w of
              (Inl e, w') \<Rightarrow> (Inl e, w')
            | (Inr t, w') \<Rightarrow>
                if 0 \<le> idx \<and> nat idx < length stackedList
                then randperm_loop Func' n extra_args batch_size (idx + 1) (stackedList[nat idx := t]) w'
                else (Inl OutOfBounds, w'))
      else (Inr stackedList, w))"
  by pat_completeness auto
termination
  by (relation "measure (\<lambda>(Func', n, extra_args, batch_size, idx, stackedList, w). nat (batch_size - idx))") auto

declare randperm_loop.simps [simp del]

text \<open>\<^verbatim>\<open>randperm_batching_rule<F, Func, ExtraArgs...>\<close>.\<close>

definition randperm_batching_rule ::
  "(int \<Rightarrow> 'x \<Rightarrow> (Tensor, ('g, 'a) world) M) \<Rightarrow> int \<Rightarrow> 'x \<Rightarrow> (Tensor, ('g, 'a) world) M" where
  "randperm_batching_rule Func' n extra_args =
     ExcludeDispatchKeyGuard kVmapModeKey
       (bindM maybeCurrentDynamicLayer (\<lambda>maybe_layer.
        bindM (deref maybe_layer) (\<lambda>layer.
        let batch_size = batchSize layer;
            randomness' = randomness layer
        in bindM (check_randomness randomness') (\<lambda>_.
           if randomness' = Different
           then bindM (std_vector batch_size) (\<lambda>stackedList0.
                bindM (randperm_loop Func' n extra_args batch_size 0 stackedList0) (\<lambda>stackedList.
                bindM (at_stack stackedList) (\<lambda>stacked.
                returnM (makeBatched stacked 0 (layerId layer)))))
           else bindM (Func' n extra_args) (\<lambda>res. returnM res)))))"

definition RandomInplaceBatchRuleHelper_apply ::
  "(Tensor \<Rightarrow> 'e \<Rightarrow> (Tensor, ('g, 'a) world) M) \<Rightarrow> Tensor \<Rightarrow> 'e \<Rightarrow> (Tensor, ('g, 'a) world) M" where
  "RandomInplaceBatchRuleHelper_apply Func' self extra_args =
     random_inplace_batching_rule Func' self extra_args"

definition RandpermBatchRuleHelper_apply ::
  "(int \<Rightarrow> 'e \<Rightarrow> (Tensor, ('g, 'a) world) M) \<Rightarrow> int \<Rightarrow> 'e \<Rightarrow> (Tensor, ('g, 'a) world) M" where
  "RandpermBatchRuleHelper_apply Func' n extra_args = randperm_batching_rule Func' n extra_args"


definition RandomBatchRuleHelper_apply ::
  "(int list \<Rightarrow> 'e \<Rightarrow> (Tensor, ('g, 'a) world) M) \<Rightarrow> int list \<Rightarrow> 'e \<Rightarrow> (Tensor, ('g, 'a) world) M" where
  "RandomBatchRuleHelper_apply Func' shape extra_args = random_batching_rule Func' shape extra_args"

definition rand_int_wrapper ::
  "(int \<Rightarrow> int list \<Rightarrow> 'e \<Rightarrow> (Tensor, 'w) M) \<Rightarrow> int list \<Rightarrow> int \<times> 'e \<Rightarrow> (Tensor, 'w) M" where
  "rand_int_wrapper Func' shape = (\<lambda>(high, extra_args). Func' high shape extra_args)"

definition RandIntBatchRuleHelper_apply ::
  "(int \<Rightarrow> int list \<Rightarrow> 'e \<Rightarrow> (Tensor, ('g, 'a) world) M) \<Rightarrow> int \<Rightarrow> int list \<Rightarrow> 'e \<Rightarrow> (Tensor, ('g, 'a) world) M" where
  "RandIntBatchRuleHelper_apply Func' high shape extra_args =
     random_batching_rule (rand_int_wrapper Func') shape (high, extra_args)"

definition rand_int_low_wrapper ::
  "(int \<Rightarrow> int \<Rightarrow> int list \<Rightarrow> 'e \<Rightarrow> (Tensor, 'w) M) \<Rightarrow> int list \<Rightarrow> int \<times> int \<times> 'e \<Rightarrow> (Tensor, 'w) M" where
  "rand_int_low_wrapper Func' shape = (\<lambda>(high, low, extra_args). Func' high low shape extra_args)"

definition RandIntLowBatchRuleHelper_apply ::
  "(int \<Rightarrow> int \<Rightarrow> int list \<Rightarrow> 'e \<Rightarrow> (Tensor, ('g, 'a) world) M) \<Rightarrow> int \<Rightarrow> int \<Rightarrow> int list \<Rightarrow> 'e \<Rightarrow> (Tensor, ('g, 'a) world) M" where
  "RandIntLowBatchRuleHelper_apply Func' high low shape extra_args =
     random_batching_rule (rand_int_low_wrapper Func') shape (high, low, extra_args)"

text \<open>
  The registrations of \<^verbatim>\<open>TORCH_LIBRARY_IMPL(aten, FuncTorchVmapMode, m)\<close>: each macro
  instantiates a helper at \<^verbatim>\<open>&ATEN_FN(op)\<close>.
\<close>

definition RANDOM_BATCH_RULE ::
  "(int list \<times> 'e \<Rightarrow> 'g runtime \<Rightarrow> (error + Tensor) \<times> 'g runtime) \<Rightarrow> int list \<Rightarrow> 'e \<Rightarrow> (Tensor, ('g, int list \<times> 'e) world) M" where
  "RANDOM_BATCH_RULE op = RandomBatchRuleHelper_apply (\<lambda>shape extra_args. ATEN_FN op (shape, extra_args))"

definition RANDINT_BATCH_RULE ::
  "(int \<times> int list \<times> 'e \<Rightarrow> 'g runtime \<Rightarrow> (error + Tensor) \<times> 'g runtime) \<Rightarrow> int \<Rightarrow> int list \<Rightarrow> 'e \<Rightarrow> (Tensor, ('g, int \<times> int list \<times> 'e) world) M" where
  "RANDINT_BATCH_RULE op = RandIntBatchRuleHelper_apply (\<lambda>high shape extra_args. ATEN_FN op (high, shape, extra_args))"

definition RANDINT_LOW_BATCH_RULE ::
  "(int \<times> int \<times> int list \<times> 'e \<Rightarrow> 'g runtime \<Rightarrow> (error + Tensor) \<times> 'g runtime) \<Rightarrow> int \<Rightarrow> int \<Rightarrow> int list \<Rightarrow> 'e \<Rightarrow> (Tensor, ('g, int \<times> int \<times> int list \<times> 'e) world) M" where
  "RANDINT_LOW_BATCH_RULE op =
     RandIntLowBatchRuleHelper_apply (\<lambda>low high shape extra_args. ATEN_FN op (low, high, shape, extra_args))"

definition RANDOM_INPLACE_BATCH_RULE ::
  "(Tensor \<times> 'e \<Rightarrow> 'g runtime \<Rightarrow> (error + Tensor) \<times> 'g runtime) \<Rightarrow> Tensor \<Rightarrow> 'e \<Rightarrow> (Tensor, ('g, Tensor \<times> 'e) world) M" where
  "RANDOM_INPLACE_BATCH_RULE op =
     RandomInplaceBatchRuleHelper_apply (\<lambda>self extra_args. ATEN_FN op (self, extra_args))"

definition RANDPERM_BATCH_RULE ::
  "(int \<times> 'e \<Rightarrow> 'g runtime \<Rightarrow> (error + Tensor) \<times> 'g runtime) \<Rightarrow> int \<Rightarrow> 'e \<Rightarrow> (Tensor, ('g, int \<times> 'e) world) M" where
  "RANDPERM_BATCH_RULE op = RandpermBatchRuleHelper_apply (\<lambda>n extra_args. ATEN_FN op (n, extra_args))"


section \<open>Vocabulary of the properties\<close>

text \<open>The layer a rule finds: the innermost one of a non-empty stack.\<close>

definition active_layer :: "('g, 'a) world \<Rightarrow> DynamicLayer \<Rightarrow> bool" where
  "active_layer w l = (dynamicLayerStack w \<noteq> [] \<and> last (dynamicLayerStack w) = l)"

text \<open>The world inside a rule's guard.\<close>

definition entered :: "('g, 'a) world \<Rightarrow> ('g, 'a) world" where
  "entered w = w\<lparr>tls_excluded := insert kVmapModeKey (tls_excluded w)\<rparr>"

text \<open>
  What the shape rule asks of the real operator and what it hands back, by mode
  (\<open>Same\<close> or \<open>Different\<close>).
\<close>

definition requested_shape :: "DynamicLayer \<Rightarrow> int list \<Rightarrow> int list" where
  "requested_shape l shape = (if randomness l = Different then batchSize l # shape else shape)"

definition tagged :: "DynamicLayer \<Rightarrow> error + Tensor \<Rightarrow> error + Tensor" where
  "tagged l r =
     (if randomness l = Different then map_sum id (\<lambda>t. makeBatched t 0 (layerId l)) r else r)"

text \<open>
  A well-formed tensor: a dense tensor has a stride for every dimension, and the batch
  dimension of a batched tensor is a dimension of its value.
\<close>

fun wf_tensor :: "Tensor \<Rightarrow> bool" where
  "wf_tensor UndefinedTensor = True"
| "wf_tensor (Dense t) = (length (strides t) = length (sizes t))"
| "wf_tensor (BatchedTensor v b l) =
     (wf_tensor v \<and> (case tensor_sizes v of Inl e \<Rightarrow> False | Inr sz \<Rightarrow> 0 \<le> b \<and> nat b < length sz))"

text \<open>A computation that leaves the transform-layer stack as it found it, however it ends.\<close>

definition keeps_layers :: "('r, ('g, 'a) world) M \<Rightarrow> bool" where
  "keeps_layers m = (\<forall>w. dynamicLayerStack (snd (m w)) = dynamicLayerStack w)"


text \<open>
  In the specification's words: "invoke the real operator independently \<open>batchSize\<close>
  times (sequential ... each call ... must observe the previous call's advanced state),
  collecting one permutation per iteration".  \<open>draws op args k\<close> is that: \<open>k\<close> calls
  one after the other on the runtime the call before left, the results in call order;
  the first exception ends it.
\<close>

fun draws :: "('a \<Rightarrow> 'g runtime \<Rightarrow> (error + Tensor) \<times> 'g runtime) \<Rightarrow> 'a \<Rightarrow> nat \<Rightarrow> 'g runtime \<Rightarrow> (error + Tensor list) \<times> 'g runtime" where
  "draws op args 0 r = (Inr [], r)"
| "draws op args (Suc k) r =
     (case op args r of
        (Inl e, r') \<Rightarrow> (Inl e, r')
      | (Inr t, r') \<Rightarrow>
          (case draws op args k r' of
             (Inl e, r'') \<Rightarrow> (Inl e, r'')
           | (Inr ts, r'') \<Rightarrow> (Inr (t # ts), r'')))"

text \<open>\<^verbatim>\<open>t.select(d, i)\<close>: the \<open>i\<close>-th slice of a dense tensor along dimension \<open>d\<close>.\<close>

definition select_dim :: "nat \<Rightarrow> nat \<Rightarrow> TensorImpl \<Rightarrow> TensorImpl" where
  "select_dim d i t =
     t\<lparr>storage_offset := storage_offset t + i * (strides t ! d),
       sizes := remove_dim d (sizes t), strides := remove_dim d (strides t)\<rparr>"

text \<open>The cells hold each of \<open>0, \<dots>, n - 1\<close> once.\<close>

definition is_permutation :: "int \<Rightarrow> scalar option list \<Rightarrow> bool" where
  "is_permutation n cells = (distinct cells \<and> set cells = set (map (\<lambda>i. Some (int i)) [0..<nat n]))"

text \<open>The tensor \<open>at_stack\<close> makes of dense tensors on a heap \<open>h\<close>.\<close>

definition stacked :: "scalar option list list \<Rightarrow> TensorImpl list \<Rightarrow> TensorImpl" where
  "stacked h tis =
     \<lparr>storage = length h, storage_offset = 0, sizes = length tis # sizes (hd tis),
      strides = contiguous_strides (length tis # sizes (hd tis)), options = options (hd tis)\<rparr>"



text \<open>
  A batched tensor may wrap a value that is batched at an outer level.  \<open>dense_of\<close> is
  the dense tensor under all wrappers, \<open>phys_dim t d\<close> the dimension of that dense
  tensor which \<open>t\<close> shows as its dimension \<open>d\<close>, and \<open>broadcast_source t s\<close> the view of
  a dense source \<open>s\<close> of \<open>t\<close>'s logical shape that \<open>copy_into\<close> reads from: \<open>s\<close> with a
  dimension of stride 0 put in for every batch dimension of \<open>t\<close>.
\<close>

fun dense_of :: "Tensor \<Rightarrow> TensorImpl option" where
  "dense_of UndefinedTensor = None"
| "dense_of (Dense t) = Some t"
| "dense_of (BatchedTensor v b l) = dense_of v"




section \<open>Sample operators and worlds\<close>

text \<open>
  Concrete stand-ins for the real operators, with a counter as generator: each draw is
  the next value of the counter, so two draws never look alike.
\<close>

definition example_layer :: "RandomnessType \<Rightarrow> int \<Rightarrow> DynamicLayer" where
  "example_layer mode B = \<lparr>layerId = 1, batchSize = B, randomness = mode\<rparr>"

definition example_world :: "RandomnessType \<Rightarrow> int \<Rightarrow> scalar option list list \<Rightarrow> (nat, 'a) world" where
  "example_world mode B h =
     \<lparr>rt = \<lparr>heap = h, generator = 0\<rparr>, dynamicLayerStack = [example_layer mode B],
      tls_excluded = {}, calls = []\<rparr>"

definition fresh_tensor ::
  "nat list \<Rightarrow> TensorOptions \<Rightarrow> scalar option list \<Rightarrow> nat \<Rightarrow> nat runtime \<Rightarrow> (error + Tensor) \<times> nat runtime" where
  "fresh_tensor sz opts cells g r =
     (Inr (Dense \<lparr>storage = length (heap r), storage_offset = 0, sizes = sz,
                  strides = contiguous_strides sz, options = opts\<rparr>),
      r\<lparr>heap := heap r @ [cells], generator := g\<rparr>)"

definition example_rand :: "int list \<times> TensorOptions \<Rightarrow> nat runtime \<Rightarrow> (error + Tensor) \<times> nat runtime" where
  "example_rand = (\<lambda>(shape, opts) r.
     if list_ex (\<lambda>s. s < 0) shape then (Inl (RuntimeError ''negative dimension''), r)
     else fresh_tensor (map nat shape) opts
            (map (\<lambda>i. Some (int (generator r + i))) [0..<prod_list (map nat shape)])
            (generator r + prod_list (map nat shape)) r)"

definition example_randint_low ::
  "int \<times> int \<times> int list \<times> TensorOptions \<Rightarrow> nat runtime \<Rightarrow> (error + Tensor) \<times> nat runtime" where
  "example_randint_low = (\<lambda>(low, high, shape, opts) r.
     if list_ex (\<lambda>s. s < 0) shape then (Inl (RuntimeError ''negative dimension''), r)
     else if high \<le> low then (Inl (RuntimeError ''from is not less than to''), r)
     else fresh_tensor (map nat shape) opts
            (map (\<lambda>i. Some (low + int (generator r + i) mod (high - low)))
               [0..<prod_list (map nat shape)])
            (generator r + prod_list (map nat shape)) r)"

definition example_randint ::
  "int \<times> int list \<times> TensorOptions \<Rightarrow> nat runtime \<Rightarrow> (error + Tensor) \<times> nat runtime" where
  "example_randint = (\<lambda>(high, shape, opts). example_randint_low (0, high, shape, opts))"

definition fill_from :: "TensorImpl \<Rightarrow> nat \<Rightarrow> scalar option list list \<Rightarrow> scalar option list list" where
  "fill_from t g h =
     fold (\<lambda>(k, idx) h'. write_cell h' t idx (Some (int (g + k)))) (enumerate 0 (indices (sizes t))) h"

definition example_random_inplace ::
  "Tensor \<times> TensorOptions \<Rightarrow> nat runtime \<Rightarrow> (error + Tensor) \<times> nat runtime" where
  "example_random_inplace = (\<lambda>(self, opts) r.
     case self of
       Dense t \<Rightarrow> (Inr self, r\<lparr>heap := fill_from t (generator r) (heap r),
                               generator := generator r + length (indices (sizes t))\<rparr>)
     | _ \<Rightarrow> (Inl (RuntimeError ''not a dense tensor''), r))"

definition example_randperm :: "int \<times> TensorOptions \<Rightarrow> nat runtime \<Rightarrow> (error + Tensor) \<times> nat runtime" where
  "example_randperm = (\<lambda>(n, opts) r.
     if n < 0 then (Inl (RuntimeError ''n must be non-negative''), r)
     else fresh_tensor [nat n] opts
            (map (\<lambda>i. Some ((int (generator r) + int i) mod n)) [0..<nat n])
            (Suc (generator r)) r)"

section \<open>Running the rules\<close>

lemma entered_simps [simp]:
  "rt (entered w) = rt w" "calls (entered w) = calls w"
  "dynamicLayerStack (entered w) = dynamicLayerStack w"
  "active_layer (entered w) l = active_layer w l"
  by (simp_all add: entered_def active_layer_def)

lemma guard_entered:
  "ExcludeDispatchKeyGuard kVmapModeKey body w =
     (case body (entered w) of (r, w') \<Rightarrow>
        (r, w'\<lparr>tls_excluded := (if kVmapModeKey \<in> tls_excluded w then tls_excluded w'
                                 else tls_excluded w' - {kVmapModeKey})\<rparr>))"
  by (simp add: ExcludeDispatchKeyGuard_def entered_def)

lemma guard_leave:
  assumes "body (entered w) = (r, (entered w)\<lparr>rt := rt', calls := cs\<rparr>)"
  shows "ExcludeDispatchKeyGuard kVmapModeKey body w = (r, w\<lparr>rt := rt', calls := cs\<rparr>)"
  using assms by (auto simp add: guard_entered entered_def insert_absorb)

lemma guard_leave_unchanged:
  assumes "body (entered w) = (r, entered w)"
  shows "ExcludeDispatchKeyGuard kVmapModeKey body w = (r, w)"
  using assms by (auto simp add: guard_entered entered_def insert_absorb)

lemma with_layer:
  "active_layer w l \<Longrightarrow> bindM maybeCurrentDynamicLayer (\<lambda>ml. bindM (deref ml) f) w = f l w"
  by (simp add: active_layer_def bindM_def maybeCurrentDynamicLayer_def deref_def returnM_def)

lemma check_randomness_ok: "r \<noteq> Error \<Longrightarrow> bindM (check_randomness r) f w = f () w"
  by (simp add: check_randomness_def TORCH_CHECK_def bindM_def returnM_def)

lemma check_randomness_error: "bindM (check_randomness Error) f w = (Inl RandomnessModeError, w)"
  by (simp add: check_randomness_def TORCH_CHECK_def bindM_def throwM_def)

lemma check_randomness_run:
  "check_randomness r w = (if r = Error then (Inl RandomnessModeError, w) else (Inr (), w))"
  by (simp add: check_randomness_def TORCH_CHECK_def returnM_def throwM_def)

lemma TORCH_CHECK_run: "TORCH_CHECK c e w = (if c then (Inr (), w) else (Inl e, w))"
  by (simp add: TORCH_CHECK_def returnM_def throwM_def)

lemma std_vector_run:
  "std_vector k w =
     (if k < 0 \<or> max_size < k then (Inl LengthError, w)
      else (Inr (replicate (nat k) UndefinedTensor), w))"
  by (simp add: std_vector_def returnM_def throwM_def)

lemma max_size_nonneg: "\<not> max_size < 0"
  by (simp add: max_size_def)

lemmas run_simps = bindM_def returnM_def throwM_def liftE_def check_randomness_run TORCH_CHECK_run

lemma ATEN_FN_run:
  "op args (rt w) = (r, rt') \<Longrightarrow>
   ATEN_FN op args w = (r, w\<lparr>rt := rt', calls := calls w @ [CallOp args]\<rparr>)"
  by (simp add: ATEN_FN_def)

lemma bindM_ATEN_FN:
  "op args (rt w) = (r, rt') \<Longrightarrow>
   bindM (ATEN_FN op args) (\<lambda>t. returnM (f t)) w =
     (map_sum id f r, w\<lparr>rt := rt', calls := calls w @ [CallOp args]\<rparr>)"
  by (cases r) (simp_all add: ATEN_FN_def bindM_def returnM_def)

subsection \<open>The shape rule, mode by mode\<close>

lemma rule_same:
  assumes "active_layer w l" "randomness l = Same"
  shows "random_batching_rule Func' shape x w = ExcludeDispatchKeyGuard kVmapModeKey (Func' shape x) w"
  unfolding random_batching_rule_def guard_entered
  using assms by (simp add: with_layer check_randomness_ok)

lemma rule_different:
  assumes "active_layer w l" "randomness l = Different"
  shows "random_batching_rule Func' shape x w =
         ExcludeDispatchKeyGuard kVmapModeKey
           (bindM (Func' (batchSize l # shape) x) (\<lambda>res. returnM (makeBatched res 0 (layerId l)))) w"
  unfolding random_batching_rule_def guard_entered
  using assms by (simp add: with_layer check_randomness_ok)

lemma rule_error:
  assumes "active_layer w l" "randomness l = Error"
  shows "random_batching_rule Func' shape x w = (Inl RandomnessModeError, w)"
  unfolding random_batching_rule_def
  using assms by (intro guard_leave_unchanged) (simp add: with_layer check_randomness_error)

lemma rule_forward:
  assumes "active_layer w l" "randomness l \<noteq> Error"
    "Func' (requested_shape l shape) x (entered w) = (r, (entered w)\<lparr>rt := rt', calls := cs\<rparr>)"
  shows "random_batching_rule Func' shape x w = (tagged l r, w\<lparr>rt := rt', calls := cs\<rparr>)"
proof (cases "randomness l = Different")
  case True
  have "bindM (Func' (batchSize l # shape) x) (\<lambda>res. returnM (makeBatched res 0 (layerId l))) (entered w)
        = (tagged l r, (entered w)\<lparr>rt := rt', calls := cs\<rparr>)"
    using assms(3) True by (cases r) (simp_all add: run_simps requested_shape_def tagged_def)
  then show ?thesis
    by (simp add: rule_different[OF assms(1) True] guard_leave)
next
  case False
  with assms(2) have s: "randomness l = Same" by (cases "randomness l") simp_all
  show ?thesis using assms(3) s
    by (simp add: rule_same[OF assms(1) s] guard_leave requested_shape_def tagged_def)
qed

subsection \<open>The in-place rule up to its checks\<close>

lemma movedim_front_total:
  "wf_tensor t \<Longrightarrow> tensor_sizes t = Inr sz \<Longrightarrow> d < length sz \<Longrightarrow> \<exists>t'. movedim_front t d = Inr t'"
proof (induction t arbitrary: d sz)
  case UndefinedTensor
  then show ?case by simp
next
  case (Dense t)
  then show ?case by simp
next
  case (BatchedTensor v b l)
  from BatchedTensor.prems obtain szv where szv: "tensor_sizes v = Inr szv" "0 \<le> b" "nat b < length szv"
    and wfv: "wf_tensor v"
    by (auto split: sum.splits)
  with BatchedTensor.prems have sz: "sz = remove_dim (nat b) szv" by simp
  then have len: "Suc (length sz) = length szv" using szv by (simp add: remove_dim_def)
  let ?d' = "if int d < b then d else Suc d"
  have "?d' < length szv" using BatchedTensor.prems(3) len by auto
  from BatchedTensor.IH[OF wfv szv(1) this] obtain v' where "movedim_front v ?d' = Inr v'" by blast
  then show ?case by (simp add: Let_def)
qed

lemma moveBatchDimToFront_total:
  assumes "wf_tensor self" "unwrapTensorAtLevel self lv = (v, bd)"
  shows "\<exists>sv. moveBatchDimToFront v bd = Inr sv"
proof (cases bd)
  case None
  then show ?thesis by (simp add: moveBatchDimToFront_def)
next
  case (Some b)
  with assms(2) obtain l where self: "self = BatchedTensor v b l"
    by (auto simp add: unwrapTensorAtLevel_def split: Tensor.splits if_splits)
  with assms(1) obtain szv where szv: "tensor_sizes v = Inr szv" "0 \<le> b" "nat b < length szv" "wf_tensor v"
    by (auto split: sum.splits)
  from movedim_front_total[OF szv(4) szv(1) szv(3)] obtain t' where "movedim_front v (nat b) = Inr t'" by blast
  then show ?thesis using Some szv(2) by (simp add: moveBatchDimToFront_def)
qed

lemma inplace_body:
  assumes "active_layer w l" "unwrapTensorAtLevel self (layerId l) = (v, bd)"
    "moveBatchDimToFront v bd = Inr sv"
  shows "random_inplace_batching_rule Func' self x w =
     ExcludeDispatchKeyGuard kVmapModeKey
       (bindM (check_randomness (randomness l)) (\<lambda>_.
        bindM (TORCH_CHECK (\<not> (randomness l = Different \<and> bd = None))
                 UnsupportedInplaceRandomnessError) (\<lambda>_.
        if randomness l = Same \<and> bd \<noteq> None
        then bindM (liftE (tensor_sizes self)) (\<lambda>self_sizes.
             bindM (liftE (tensor_options self)) (\<lambda>self_options.
             bindM (at_empty (map int self_sizes) self_options) (\<lambda>intermediate.
             bindM (Func' intermediate x) (\<lambda>_.
             bindM (tensor_copy self intermediate) (\<lambda>_.
             returnM self)))))
        else bindM (Func' sv x) (\<lambda>_. returnM self)))) w"
  unfolding random_inplace_batching_rule_def guard_entered
  using assms by (simp add: with_layer liftE_def bindM_def[of "\<lambda>w. (Inr sv, w)"] Let_def)

lemma inplace_error:
  assumes "active_layer w l" "randomness l = Error" "wf_tensor self"
  shows "random_inplace_batching_rule Func' self x w = (Inl RandomnessModeError, w)"
proof -
  obtain v bd where u: "unwrapTensorAtLevel self (layerId l) = (v, bd)" by fastforce
  from moveBatchDimToFront_total[OF assms(3) u] obtain sv where sv: "moveBatchDimToFront v bd = Inr sv" by blast
  show ?thesis
    unfolding inplace_body[OF assms(1) u sv]
    using assms(2) by (intro guard_leave_unchanged) (simp add: check_randomness_error)
qed

subsection \<open>The permutation rule, mode by mode\<close>

lemma randperm_error:
  assumes "active_layer w l" "randomness l = Error"
  shows "randperm_batching_rule Func' n x w = (Inl RandomnessModeError, w)"
  unfolding randperm_batching_rule_def
  using assms by (intro guard_leave_unchanged) (simp add: with_layer check_randomness_error)

lemma randperm_different:
  assumes "active_layer w l" "randomness l = Different"
  shows "randperm_batching_rule Func' n x w =
     ExcludeDispatchKeyGuard kVmapModeKey
       (bindM (std_vector (batchSize l)) (\<lambda>stackedList0.
        bindM (randperm_loop Func' n x (batchSize l) 0 stackedList0) (\<lambda>stackedList.
        bindM (at_stack stackedList) (\<lambda>stacked.
        returnM (makeBatched stacked 0 (layerId l)))))) w"
  unfolding randperm_batching_rule_def guard_entered
  using assms by (simp add: with_layer check_randomness_ok Let_def)

lemma at_stack_nil:
  "at_stack [] w =
     (Inl (RuntimeError ''stack expects a non-empty TensorList''), w\<lparr>calls := calls w @ [CallStack []]\<rparr>)"
  by (simp add: at_stack_def)

subsection \<open>The layer stack is only read\<close>

lemma keeps_layersD:
  "keeps_layers m \<Longrightarrow> m w = (r, w') \<Longrightarrow> dynamicLayerStack w' = dynamicLayerStack w"
  by (metis keeps_layers_def snd_conv)

lemma keeps_returnM [simp]: "keeps_layers (returnM x)"
  by (simp add: keeps_layers_def returnM_def)

lemma keeps_throwM [simp]: "keeps_layers (throwM e)"
  by (simp add: keeps_layers_def throwM_def)

lemma keeps_liftE [simp]: "keeps_layers (liftE r)"
  by (simp add: keeps_layers_def liftE_def)

lemma keeps_bindM:
  assumes "keeps_layers m" "\<And>x. keeps_layers (f x)"
  shows "keeps_layers (bindM m f)"
  unfolding keeps_layers_def
proof
  fix w
  obtain r w' where m: "m w = (r, w')" by fastforce
  have k: "dynamicLayerStack w' = dynamicLayerStack w" using keeps_layersD[OF assms(1) m] .
  show "dynamicLayerStack (snd (bindM m f w)) = dynamicLayerStack w"
  proof (cases r)
    case (Inl e)
    then show ?thesis using m k by (simp add: bindM_def)
  next
    case (Inr x)
    obtain r2 w2 where f: "f x w' = (r2, w2)" by fastforce
    from keeps_layersD[OF assms(2) f] show ?thesis using Inr m k f by (simp add: bindM_def)
  qed
qed

lemma keeps_guard:
  fixes m :: "('r, ('g, 'a) world) M"
  assumes "keeps_layers m"
  shows "keeps_layers (ExcludeDispatchKeyGuard k m)"
  unfolding keeps_layers_def
proof
  fix w :: "('g, 'a) world"
  obtain r w' where m: "m (w\<lparr>tls_excluded := insert k (tls_excluded w)\<rparr>) = (r, w')" by fastforce
  from keeps_layersD[OF assms m] have "dynamicLayerStack w' = dynamicLayerStack w" by simp
  then show "dynamicLayerStack (snd (ExcludeDispatchKeyGuard k m w)) = dynamicLayerStack w"
    by (simp add: ExcludeDispatchKeyGuard_def m)
qed

lemma keeps_prims [simp]:
  "keeps_layers maybeCurrentDynamicLayer"
  "keeps_layers (deref m)"
  "keeps_layers (check_randomness r)"
  "keeps_layers (TORCH_CHECK c e)"
  "keeps_layers (std_vector k)"
  "keeps_layers (ATEN_FN op args)"
  "keeps_layers (at_empty sz opts)"
  "keeps_layers (tensor_copy t u)"
  "keeps_layers (at_stack ts)"
  by (auto simp add: keeps_layers_def maybeCurrentDynamicLayer_def deref_def check_randomness_def
      TORCH_CHECK_def std_vector_def ATEN_FN_def at_empty_def tensor_copy_def at_stack_def
      returnM_def throwM_def Let_def
      split: option.splits prod.splits sum.splits Tensor.splits list.splits)

lemma keeps_loop_run:
  assumes "\<And>n x. keeps_layers (Func' n x)"
  shows "dynamicLayerStack (snd (randperm_loop Func' n x bs idx sl w)) = dynamicLayerStack w"
  using assms
proof (induction Func' n x bs idx sl w rule: randperm_loop.induct)
  case (1 Func' n x bs idx sl w)
  show ?case
  proof (cases "Func' n x w")
    case (Pair r w')
    have k: "dynamicLayerStack w' = dynamicLayerStack w"
      using keeps_layersD[OF "1.prems" Pair] .
    show ?thesis
      using "1.IH" "1.prems" Pair k
      by (subst randperm_loop.simps) (auto split: sum.splits)
  qed
qed

lemma keeps_loop:
  assumes "\<And>n x. keeps_layers (Func' n x)"
  shows "keeps_layers (randperm_loop Func' n x bs idx sl)"
  unfolding keeps_layers_def[of "randperm_loop Func' n x bs idx sl"]
  using keeps_loop_run[of Func', OF assms] by blast

lemma keeps_random_batching_rule:
  "(\<And>s x. keeps_layers (Func' s x)) \<Longrightarrow> keeps_layers (random_batching_rule Func' shape x)"
  unfolding random_batching_rule_def
  by (intro keeps_guard keeps_bindM) (simp_all add: Let_def keeps_bindM)

lemma keeps_random_inplace_batching_rule:
  "(\<And>s x. keeps_layers (Func' s x)) \<Longrightarrow> keeps_layers (random_inplace_batching_rule Func' self x)"
  unfolding random_inplace_batching_rule_def
  by (intro keeps_guard keeps_bindM) (simp_all add: Let_def keeps_bindM split: prod.splits)

lemma keeps_randperm_batching_rule:
  "(\<And>s x. keeps_layers (Func' s x)) \<Longrightarrow> keeps_layers (randperm_batching_rule Func' n x)"
  unfolding randperm_batching_rule_def
  by (intro keeps_guard keeps_bindM) (simp_all add: Let_def keeps_bindM keeps_loop)

subsection \<open>The loop of the permutation rule and the stack\<close>

lemma draws_length: "draws op args k r = (Inr ts, r') \<Longrightarrow> length ts = k"
  by (induction k arbitrary: r ts) (auto split: prod.splits sum.splits)

lemma loop_draws:
  assumes "draws op (n, e) k (rt w) = (Inr ts, rt')" "0 \<le> idx" "bs = idx + int k" "length sl = nat bs"
  shows "randperm_loop (\<lambda>n extra_args. ATEN_FN op (n, extra_args)) n e bs idx sl w =
           (Inr (take (nat idx) sl @ ts),
            w\<lparr>rt := rt', calls := calls w @ replicate k (CallOp (n, e))\<rparr>)"
  using assms
proof (induction k arbitrary: idx sl w ts)
  case 0
  then show ?case by (simp add: randperm_loop.simps)
next
  case (Suc k)
  from Suc.prems(1) obtain t r1 ts' where
    op: "op (n, e) (rt w) = (Inr t, r1)" and d: "draws op (n, e) k r1 = (Inr ts', rt')" and ts: "ts = t # ts'"
    by (auto split: prod.splits sum.splits)
  let ?w1 = "w\<lparr>rt := r1, calls := calls w @ [CallOp (n, e)]\<rparr>"
  have run: "ATEN_FN op (n, e) w = (Inr t, ?w1)" using op by (simp add: ATEN_FN_def)
  have lt: "idx < bs" "nat idx < length sl" using Suc.prems by auto
  have IH: "randperm_loop (\<lambda>n extra_args. ATEN_FN op (n, extra_args)) n e bs (idx + 1) (sl[nat idx := t]) ?w1 =
           (Inr (take (nat (idx + 1)) (sl[nat idx := t]) @ ts'),
            ?w1\<lparr>rt := rt', calls := calls ?w1 @ replicate k (CallOp (n, e))\<rparr>)"
    using Suc.prems by (intro Suc.IH) (simp_all add: d)
  have tk: "take (nat (idx + 1)) (sl[nat idx := t]) = take (nat idx) sl @ [t]"
    using lt Suc.prems(2) by (simp add: nat_add_distrib take_Suc_conv_app_nth)
  show ?case
    apply (subst randperm_loop.simps)
    using lt Suc.prems(2) run IH tk ts
    by (simp add: replicate_append_same)
qed

lemma length_indices: "length (indices sz) = prod_list sz"
  by (induction sz) (simp_all add: length_concat comp_def sum_list_triv)

lemma concat_rows_upt: "concat (map (\<lambda>i. map (\<lambda>j. i * p + j) [0..<p]) [0..<n]) = [0..<n * p]"
proof (induction n)
  case 0
  then show ?case by simp
next
  case (Suc n)
  have "map (\<lambda>j. n * p + j) [0..<p] = [n * p..<n * p + p]"
    by (simp add: map_add_upt add.commute)
  moreover have "[0..<n * p] @ [n * p..<n * p + p] = [0..<n * p + p]"
    using upt_add_eq_append[of 0 "n * p" p] by simp
  ultimately show ?case using Suc by (simp add: add.commute)
qed

lemma contiguous_offsets:
  "map (\<lambda>idx. sum_list (map2 (*) idx (contiguous_strides sz))) (indices sz) = [0..<prod_list sz]"
proof (induction sz)
  case Nil
  then show ?case by simp
next
  case (Cons n ns)
  let ?off = "\<lambda>idx. sum_list (map2 (*) idx (contiguous_strides ns))"
  have "map (\<lambda>idx. sum_list (map2 (*) idx (contiguous_strides (n # ns)))) (indices (n # ns))
      = concat (map (\<lambda>i. map (\<lambda>idx. i * prod_list ns + ?off idx) (indices ns)) [0..<n])"
    by (simp add: map_concat comp_def)
  also have "\<dots> = concat (map (\<lambda>i. map (\<lambda>j. i * prod_list ns + j) (map ?off (indices ns))) [0..<n])"
    by (simp add: comp_def)
  also have "\<dots> = [0..<n * prod_list ns]"
    unfolding Cons.IH by (rule concat_rows_upt)
  finally show ?case by simp
qed

lemma concat_nth_chunk:
  "\<forall>xs \<in> set xss. length xs = m \<Longrightarrow> i < length xss \<Longrightarrow> j < m \<Longrightarrow>
   concat xss ! (i * m + j) = xss ! i ! j"
proof (induction xss arbitrary: i)
  case Nil
  then show ?case by simp
next
  case (Cons xs xss)
  show ?case
  proof (cases i)
    case 0
    then show ?thesis using Cons.prems by (simp add: nth_append)
  next
    case (Suc i')
    then have "concat (xs # xss) ! (i * m + j) = concat xss ! (i' * m + j)"
      using Cons.prems by (simp add: nth_append)
    then show ?thesis using Cons Suc by simp
  qed
qed

lemma length_contents: "length (contents h t) = prod_list (sizes t)"
  by (simp add: contents_def length_indices)

lemma dense_list_map: "dense_list (map Dense tis) = Some tis"
  by (induction tis) simp_all

lemma at_stack_dense:
  assumes "tis \<noteq> []" "\<forall>t \<in> set tis. sizes t = sz"
  shows "at_stack (map Dense tis) w =
     (Inr (Dense (stacked (heap (rt w)) tis)),
      w\<lparr>rt := (rt w)\<lparr>heap := heap (rt w) @ [concat (map (contents (heap (rt w))) tis)]\<rparr>,
        calls := calls w @ [CallStack (map Dense tis)]\<rparr>)"
proof -
  obtain t us where tis: "tis = t # us" using assms(1) by (cases tis) auto
  have "list_all (\<lambda>u. sizes u = sizes t) us" using assms(2) tis by (simp add: list_all_iff)
  then show ?thesis
    unfolding at_stack_def dense_list_map
    by (simp add: tis stacked_def Let_def)
qed

lemma stacked_row:
  assumes "i < length tis" "\<forall>t \<in> set tis. sizes t = sz"
  shows "contents (h @ [concat (map (contents h) tis)]) (select_dim 0 i (stacked h tis)) =
         contents h (tis ! i)"
proof -
  let ?P = "prod_list sz"
  let ?cells = "concat (map (contents h) tis)"
  let ?off = "\<lambda>idx. sum_list (map2 (*) idx (contiguous_strides sz))"
  have hd: "sizes (hd tis) = sz" using assms by (cases tis) auto
  have szi: "sizes (tis ! i) = sz" using assms by simp
  have len: "\<forall>xs \<in> set (map (contents h) tis). length xs = ?P"
    using assms(2) by (simp add: length_contents)
  have "contents (h @ [?cells]) (select_dim 0 i (stacked h tis))
      = map (\<lambda>idx. ?cells ! (i * ?P + ?off idx)) (indices sz)"
    by (simp add: contents_def select_dim_def stacked_def hd remove_dim_def read_cell_def
        offset_of_def nth_append)
  also have "\<dots> = map (\<lambda>k. ?cells ! (i * ?P + k)) (map ?off (indices sz))"
    by (simp add: comp_def)
  also have "\<dots> = map (\<lambda>k. ?cells ! (i * ?P + k)) [0..<?P]"
    by (simp only: contiguous_offsets)
  also have "\<dots> = map (\<lambda>k. contents h (tis ! i) ! k) [0..<?P]"
    using concat_nth_chunk[OF len, of i] assms(1) by simp
  also have "\<dots> = contents h (tis ! i)"
    using map_nth[of "contents h (tis ! i)"] by (simp add: length_contents szi)
  finally show ?thesis .
qed

subsection \<open>Copying into a view\<close>

lemma fold_update_length:
  "length (fold (\<lambda>idx cs. cs[f idx := c idx]) is cs) = length cs"
  by (induction "is" arbitrary: cs) simp_all



lemma dense_copy_fold:
  assumes "storage s \<noteq> storage d" "storage d < length h"
  shows "fold (\<lambda>idx h'. write_cell h' d idx (read_cell h' s idx)) is h =
         h[storage d := fold (\<lambda>idx cs. cs[offset_of d idx := h ! storage s ! offset_of s idx]) is
                          (h ! storage d)]"
  using assms(2)
proof (induction "is" arbitrary: h)
  case Nil
  then show ?case by simp
next
  case (Cons a "is")
  let ?h1 = "write_cell h d a (read_cell h s a)"
  have l1: "storage d < length ?h1" using Cons.prems by (simp add: write_cell_def)
  have s1: "?h1 ! storage s = h ! storage s" using assms(1) by (simp add: write_cell_def)
  have d1: "?h1 ! storage d = (h ! storage d)[offset_of d a := h ! storage s ! offset_of s a]"
    using Cons.prems by (simp add: write_cell_def read_cell_def)
  show ?case
    using Cons.IH[OF l1] by (simp add: s1 d1) (simp add: write_cell_def)
qed


lemma dense_copy_other:
  assumes "storage s \<noteq> storage d" "storage d < length h" "k \<noteq> storage d"
  shows "dense_copy d s h ! k = h ! k"
proof -
  have "dense_copy d s h =
      h[storage d := fold (\<lambda>idx cs. cs[offset_of d idx := h ! storage s ! offset_of s idx])
                       (indices (sizes d)) (h ! storage d)]"
    unfolding dense_copy_def by (rule dense_copy_fold[OF assms(1,2)])
  then show ?thesis using assms(3) by simp
qed

subsection \<open>Index tuples and offsets\<close>















subsection \<open>Copying into a batched value\<close>

lemma wf_dense_of: "wf_tensor t \<Longrightarrow> tensor_sizes t = Inr sz \<Longrightarrow> \<exists>d. dense_of t = Some d"
  by (induction t arbitrary: sz) (auto split: sum.splits if_splits)









subsection \<open>The sample worlds\<close>

lemma example_layer_simps [simp]:
  "layerId (example_layer mode B) = 1" "batchSize (example_layer mode B) = B"
  "randomness (example_layer mode B) = mode"
  by (simp_all add: example_layer_def)

lemma example_world_simps [simp]:
  "active_layer (example_world mode B h) (example_layer mode B)"
  "rt (example_world mode B h) = \<lparr>heap = h, generator = 0\<rparr>"
  "calls (example_world mode B h) = []"
  "dynamicLayerStack (example_world mode B h) = [example_layer mode B]"
  by (simp_all add: active_layer_def example_world_def)

section \<open>The shape-taking operators\<close>

text \<open>
  C1.  Mode \<open>Different\<close>: for \<^verbatim>\<open>randn\<close>/\<^verbatim>\<open>rand\<close> and for both \<^verbatim>\<open>randint\<close> signatures,
  the registered rule calls the real operator once, with the shape \<open>batchSize # shape\<close>
  (the requested shape in its order behind the batch size) and the other arguments as
  they came, and returns what the operator returned wrapped by \<open>makeBatched\<close> at batch
  dimension 0 with the layer's identifier.  An exception of the operator passes through.
\<close>

theorem random_batching_rule_different:
  "(active_layer w l \<and> randomness l = Different \<and> op (batchSize l # shape, e) (rt w) = (r, rt') \<longrightarrow>
      RANDOM_BATCH_RULE op shape e w =
        (map_sum id (\<lambda>t. makeBatched t 0 (layerId l)) r,
         w\<lparr>rt := rt', calls := calls w @ [CallOp (batchSize l # shape, e)]\<rparr>))
   \<and> (active_layer wi l \<and> randomness l = Different
        \<and> opi (high, batchSize l # shape, e) (rt wi) = (ri, rti) \<longrightarrow>
      RANDINT_BATCH_RULE opi high shape e wi =
        (map_sum id (\<lambda>t. makeBatched t 0 (layerId l)) ri,
         wi\<lparr>rt := rti, calls := calls wi @ [CallOp (high, batchSize l # shape, e)]\<rparr>))
   \<and> (active_layer wl l \<and> randomness l = Different
        \<and> opl (low, high, batchSize l # shape, e) (rt wl) = (rl, rtl) \<longrightarrow>
      RANDINT_LOW_BATCH_RULE opl low high shape e wl =
        (map_sum id (\<lambda>t. makeBatched t 0 (layerId l)) rl,
         wl\<lparr>rt := rtl, calls := calls wl @ [CallOp (low, high, batchSize l # shape, e)]\<rparr>))"
proof (intro conjI impI)
  assume "active_layer w l \<and> randomness l = Different \<and> op (batchSize l # shape, e) (rt w) = (r, rt')"
  then show "RANDOM_BATCH_RULE op shape e w =
        (map_sum id (\<lambda>t. makeBatched t 0 (layerId l)) r,
         w\<lparr>rt := rt', calls := calls w @ [CallOp (batchSize l # shape, e)]\<rparr>)"
    unfolding RANDOM_BATCH_RULE_def RandomBatchRuleHelper_apply_def
    by (simp add: rule_different[of w l] guard_leave bindM_ATEN_FN)
next
  assume "active_layer wi l \<and> randomness l = Different
        \<and> opi (high, batchSize l # shape, e) (rt wi) = (ri, rti)"
  then show "RANDINT_BATCH_RULE opi high shape e wi =
        (map_sum id (\<lambda>t. makeBatched t 0 (layerId l)) ri,
         wi\<lparr>rt := rti, calls := calls wi @ [CallOp (high, batchSize l # shape, e)]\<rparr>)"
    unfolding RANDINT_BATCH_RULE_def RandIntBatchRuleHelper_apply_def
    by (simp add: rule_different[of wi l] guard_leave bindM_ATEN_FN rand_int_wrapper_def)
next
  assume "active_layer wl l \<and> randomness l = Different
        \<and> opl (low, high, batchSize l # shape, e) (rt wl) = (rl, rtl)"
  then show "RANDINT_LOW_BATCH_RULE opl low high shape e wl =
        (map_sum id (\<lambda>t. makeBatched t 0 (layerId l)) rl,
         wl\<lparr>rt := rtl, calls := calls wl @ [CallOp (low, high, batchSize l # shape, e)]\<rparr>)"
    unfolding RANDINT_LOW_BATCH_RULE_def RandIntLowBatchRuleHelper_apply_def
    by (simp add: rule_different[of wl l] guard_leave bindM_ATEN_FN rand_int_low_wrapper_def)
qed

text \<open>
  The scenario of the specification: batch size 3, mode \<open>Different\<close>, \<^verbatim>\<open>rand([4,4])\<close>
  gives a value of shape \<open>[3,4,4]\<close> tagged at dimension 0; likewise \<^verbatim>\<open>randint(5, [4,4])\<close>
  and \<^verbatim>\<open>randint(2, 5, [4,4])\<close>.
\<close>

theorem random_batching_rule_different_witness:
  "fst (RANDOM_BATCH_RULE example_rand [4,4] 0 (example_world Different 3 [])) =
     Inr (BatchedTensor (Dense \<lparr>storage = 0, storage_offset = 0, sizes = [3,4,4],
                               strides = [16,4,1], options = 0\<rparr>) 0 1)
   \<and> calls (snd (RANDOM_BATCH_RULE example_rand [4,4] 0 (example_world Different 3 []))) =
     [CallOp ([3,4,4], 0)]
   \<and> fst (RANDINT_BATCH_RULE example_randint 5 [4,4] 0 (example_world Different 3 [])) =
     Inr (BatchedTensor (Dense \<lparr>storage = 0, storage_offset = 0, sizes = [3,4,4],
                               strides = [16,4,1], options = 0\<rparr>) 0 1)
   \<and> calls (snd (RANDINT_BATCH_RULE example_randint 5 [4,4] 0 (example_world Different 3 []))) =
     [CallOp (5, [3,4,4], 0)]
   \<and> fst (RANDINT_LOW_BATCH_RULE example_randint_low 2 5 [4,4] 0 (example_world Different 3 [])) =
     Inr (BatchedTensor (Dense \<lparr>storage = 0, storage_offset = 0, sizes = [3,4,4],
                               strides = [16,4,1], options = 0\<rparr>) 0 1)
   \<and> calls (snd (RANDINT_LOW_BATCH_RULE example_randint_low 2 5 [4,4] 0 (example_world Different 3 []))) =
     [CallOp (2, 5, [3,4,4], 0)]"
proof -
  let ?l = "example_layer Different 3"
  let ?w = "example_world Different 3 [] :: (nat, int list \<times> nat) world"
  let ?wi = "example_world Different 3 [] :: (nat, int \<times> int list \<times> nat) world"
  let ?wl = "example_world Different 3 [] :: (nat, int \<times> int \<times> int list \<times> nat) world"
  let ?r = "example_rand (batchSize ?l # [4,4], 0) (rt ?w)"
  let ?ri = "example_randint (5, batchSize ?l # [4,4], 0) (rt ?wi)"
  let ?rl = "example_randint_low (2, 5, batchSize ?l # [4,4], 0) (rt ?wl)"
  note th = random_batching_rule_different[where w = ?w and l = ?l and op = example_rand
      and shape = "[4,4]" and e = 0 and r = "fst ?r" and rt' = "snd ?r"
      and wi = ?wi and opi = example_randint and high = 5 and ri = "fst ?ri" and rti = "snd ?ri"
      and wl = ?wl and opl = example_randint_low and low = 2 and rl = "fst ?rl" and rtl = "snd ?rl"]
  have 1: "RANDOM_BATCH_RULE example_rand [4,4] 0 ?w =
        (map_sum id (\<lambda>t. makeBatched t 0 (layerId ?l)) (fst ?r),
         ?w\<lparr>rt := snd ?r, calls := calls ?w @ [CallOp (batchSize ?l # [4,4], 0)]\<rparr>)"
    using th by simp
  have 2: "RANDINT_BATCH_RULE example_randint 5 [4,4] 0 ?wi =
        (map_sum id (\<lambda>t. makeBatched t 0 (layerId ?l)) (fst ?ri),
         ?wi\<lparr>rt := snd ?ri, calls := calls ?wi @ [CallOp (5, batchSize ?l # [4,4], 0)]\<rparr>)"
    using th by simp
  have 3: "RANDINT_LOW_BATCH_RULE example_randint_low 2 5 [4,4] 0 ?wl =
        (map_sum id (\<lambda>t. makeBatched t 0 (layerId ?l)) (fst ?rl),
         ?wl\<lparr>rt := snd ?rl, calls := calls ?wl @ [CallOp (2, 5, batchSize ?l # [4,4], 0)]\<rparr>)"
    using th by simp
  show ?thesis
    unfolding 1 2 3
    by (simp add: example_rand_def example_randint_def example_randint_low_def fresh_tensor_def
        makeBatched_def)
qed

text \<open>
  C6.  Mode \<open>Same\<close>: the registered rule calls the real operator once, with the
  requested shape and the other arguments as they came, and returns the operator's own
  result, not wrapped; so the result has the shape the operator gives a tensor of the
  requested shape.
\<close>

theorem random_batching_rule_same:
  "(active_layer w l \<and> randomness l = Same \<and> op (shape, e) (rt w) = (r, rt') \<longrightarrow>
      RANDOM_BATCH_RULE op shape e w =
        (r, w\<lparr>rt := rt', calls := calls w @ [CallOp (shape, e)]\<rparr>))
   \<and> (active_layer wi l \<and> randomness l = Same \<and> opi (high, shape, e) (rt wi) = (ri, rti) \<longrightarrow>
      RANDINT_BATCH_RULE opi high shape e wi =
        (ri, wi\<lparr>rt := rti, calls := calls wi @ [CallOp (high, shape, e)]\<rparr>))
   \<and> (active_layer wl l \<and> randomness l = Same \<and> opl (low, high, shape, e) (rt wl) = (rl, rtl) \<longrightarrow>
      RANDINT_LOW_BATCH_RULE opl low high shape e wl =
        (rl, wl\<lparr>rt := rtl, calls := calls wl @ [CallOp (low, high, shape, e)]\<rparr>))"
proof (intro conjI impI)
  assume "active_layer w l \<and> randomness l = Same \<and> op (shape, e) (rt w) = (r, rt')"
  then show "RANDOM_BATCH_RULE op shape e w =
        (r, w\<lparr>rt := rt', calls := calls w @ [CallOp (shape, e)]\<rparr>)"
    unfolding RANDOM_BATCH_RULE_def RandomBatchRuleHelper_apply_def
    by (simp add: rule_same[of w l] guard_leave ATEN_FN_run)
next
  assume "active_layer wi l \<and> randomness l = Same \<and> opi (high, shape, e) (rt wi) = (ri, rti)"
  then show "RANDINT_BATCH_RULE opi high shape e wi =
        (ri, wi\<lparr>rt := rti, calls := calls wi @ [CallOp (high, shape, e)]\<rparr>)"
    unfolding RANDINT_BATCH_RULE_def RandIntBatchRuleHelper_apply_def
    by (simp add: rule_same[of wi l] guard_leave ATEN_FN_run rand_int_wrapper_def)
next
  assume "active_layer wl l \<and> randomness l = Same \<and> opl (low, high, shape, e) (rt wl) = (rl, rtl)"
  then show "RANDINT_LOW_BATCH_RULE opl low high shape e wl =
        (rl, wl\<lparr>rt := rtl, calls := calls wl @ [CallOp (low, high, shape, e)]\<rparr>)"
    unfolding RANDINT_LOW_BATCH_RULE_def RandIntLowBatchRuleHelper_apply_def
    by (simp add: rule_same[of wl l] guard_leave ATEN_FN_run rand_int_low_wrapper_def)
qed

text \<open>
  The scenario of the specification: batch size 3, mode \<open>Same\<close>, \<^verbatim>\<open>rand([4,4])\<close> gives
  a plain tensor of shape \<open>[4,4]\<close>.
\<close>

theorem random_batching_rule_same_witness:
  "fst (RANDOM_BATCH_RULE example_rand [4,4] 0 (example_world Same 3 [])) =
     Inr (Dense \<lparr>storage = 0, storage_offset = 0, sizes = [4,4], strides = [4,1], options = 0\<rparr>)
   \<and> calls (snd (RANDOM_BATCH_RULE example_rand [4,4] 0 (example_world Same 3 []))) =
     [CallOp ([4,4], 0)]
   \<and> fst (RANDINT_BATCH_RULE example_randint 5 [4,4] 0 (example_world Same 3 [])) =
     Inr (Dense \<lparr>storage = 0, storage_offset = 0, sizes = [4,4], strides = [4,1], options = 0\<rparr>)
   \<and> calls (snd (RANDINT_BATCH_RULE example_randint 5 [4,4] 0 (example_world Same 3 []))) =
     [CallOp (5, [4,4], 0)]
   \<and> fst (RANDINT_LOW_BATCH_RULE example_randint_low 2 5 [4,4] 0 (example_world Same 3 [])) =
     Inr (Dense \<lparr>storage = 0, storage_offset = 0, sizes = [4,4], strides = [4,1], options = 0\<rparr>)
   \<and> calls (snd (RANDINT_LOW_BATCH_RULE example_randint_low 2 5 [4,4] 0 (example_world Same 3 []))) =
     [CallOp (2, 5, [4,4], 0)]"
proof -
  let ?l = "example_layer Same 3"
  let ?w = "example_world Same 3 [] :: (nat, int list \<times> nat) world"
  let ?wi = "example_world Same 3 [] :: (nat, int \<times> int list \<times> nat) world"
  let ?wl = "example_world Same 3 [] :: (nat, int \<times> int \<times> int list \<times> nat) world"
  let ?r = "example_rand ([4,4], 0) (rt ?w)"
  let ?ri = "example_randint (5, [4,4], 0) (rt ?wi)"
  let ?rl = "example_randint_low (2, 5, [4,4], 0) (rt ?wl)"
  note th = random_batching_rule_same[where w = ?w and l = ?l and op = example_rand
      and shape = "[4,4]" and e = 0 and r = "fst ?r" and rt' = "snd ?r"
      and wi = ?wi and opi = example_randint and high = 5 and ri = "fst ?ri" and rti = "snd ?ri"
      and wl = ?wl and opl = example_randint_low and low = 2 and rl = "fst ?rl" and rtl = "snd ?rl"]
  have 1: "RANDOM_BATCH_RULE example_rand [4,4] 0 ?w =
        (fst ?r, ?w\<lparr>rt := snd ?r, calls := calls ?w @ [CallOp ([4,4], 0)]\<rparr>)"
    using th by simp
  have 2: "RANDINT_BATCH_RULE example_randint 5 [4,4] 0 ?wi =
        (fst ?ri, ?wi\<lparr>rt := snd ?ri, calls := calls ?wi @ [CallOp (5, [4,4], 0)]\<rparr>)"
    using th by simp
  have 3: "RANDINT_LOW_BATCH_RULE example_randint_low 2 5 [4,4] 0 ?wl =
        (fst ?rl, ?wl\<lparr>rt := snd ?rl, calls := calls ?wl @ [CallOp (2, 5, [4,4], 0)]\<rparr>)"
    using th by simp
  show ?thesis
    unfolding 1 2 3
    by (simp add: example_rand_def example_randint_def example_randint_low_def fresh_tensor_def)
qed

text \<open>
  C8.  The two bounded-integer wrappers only reorder: the wrapper applied to shape and
  pack is the operator applied to the bounds, then the shape, then the rest.  Through
  helper and shape rule, in either working mode, the real \<^verbatim>\<open>randint\<close> receives exactly
  the bound the caller gave, and the real \<^verbatim>\<open>randint.low\<close> the caller's first and second
  bound as its first and second argument; the shape behind them is the requested one,
  preceded by the batch size in mode \<open>Different\<close>.
\<close>

theorem randint_wrappers_forward:
  "rand_int_wrapper Func1 shape (high, e) = Func1 high shape e
   \<and> rand_int_low_wrapper Func2 shape (low, high, e) = Func2 low high shape e
   \<and> (active_layer wi l \<and> randomness l \<noteq> Error
        \<and> opi (high, requested_shape l shape, e) (rt wi) = (ri, rti) \<longrightarrow>
      RANDINT_BATCH_RULE opi high shape e wi =
        (tagged l ri, wi\<lparr>rt := rti, calls := calls wi @ [CallOp (high, requested_shape l shape, e)]\<rparr>))
   \<and> (active_layer wl l \<and> randomness l \<noteq> Error
        \<and> opl (low, high, requested_shape l shape, e) (rt wl) = (rl, rtl) \<longrightarrow>
      RANDINT_LOW_BATCH_RULE opl low high shape e wl =
        (tagged l rl,
         wl\<lparr>rt := rtl, calls := calls wl @ [CallOp (low, high, requested_shape l shape, e)]\<rparr>))"
proof (intro conjI impI)
  show "rand_int_wrapper Func1 shape (high, e) = Func1 high shape e"
    by (simp add: rand_int_wrapper_def)
  show "rand_int_low_wrapper Func2 shape (low, high, e) = Func2 low high shape e"
    by (simp add: rand_int_low_wrapper_def)
next
  assume h: "active_layer wi l \<and> randomness l \<noteq> Error
        \<and> opi (high, requested_shape l shape, e) (rt wi) = (ri, rti)"
  then have "rand_int_wrapper (\<lambda>high shape extra_args. ATEN_FN opi (high, shape, extra_args))
       (requested_shape l shape) (high, e) (entered wi)
     = (ri, (entered wi)\<lparr>rt := rti, calls := calls wi @ [CallOp (high, requested_shape l shape, e)]\<rparr>)"
    by (simp add: rand_int_wrapper_def ATEN_FN_run)
  with h show "RANDINT_BATCH_RULE opi high shape e wi =
        (tagged l ri, wi\<lparr>rt := rti, calls := calls wi @ [CallOp (high, requested_shape l shape, e)]\<rparr>)"
    unfolding RANDINT_BATCH_RULE_def RandIntBatchRuleHelper_apply_def
    by (simp add: rule_forward)
next
  assume h: "active_layer wl l \<and> randomness l \<noteq> Error
        \<and> opl (low, high, requested_shape l shape, e) (rt wl) = (rl, rtl)"
  then have "rand_int_low_wrapper (\<lambda>low high shape extra_args. ATEN_FN opl (low, high, shape, extra_args))
       (requested_shape l shape) (low, high, e) (entered wl)
     = (rl, (entered wl)\<lparr>rt := rtl,
          calls := calls wl @ [CallOp (low, high, requested_shape l shape, e)]\<rparr>)"
    by (simp add: rand_int_low_wrapper_def ATEN_FN_run)
  with h show "RANDINT_LOW_BATCH_RULE opl low high shape e wl =
        (tagged l rl,
         wl\<lparr>rt := rtl, calls := calls wl @ [CallOp (low, high, requested_shape l shape, e)]\<rparr>)"
    unfolding RANDINT_LOW_BATCH_RULE_def RandIntLowBatchRuleHelper_apply_def
    by (simp add: rule_forward)
qed

text \<open>
  \<^verbatim>\<open>randint(2, 5, [2])\<close> under batch size 3, mode \<open>Different\<close>: the operator is called
  with low 2, high 5 and shape \<open>[3,2]\<close>, and draws in \<open>[2,5)\<close>; \<^verbatim>\<open>randint(5, [2])\<close> in mode
  \<open>Same\<close> is called with high 5 and shape \<open>[2]\<close>.
\<close>

theorem randint_wrappers_forward_witness:
  "RANDINT_LOW_BATCH_RULE example_randint_low 2 5 [2] 0 (example_world Different 3 []) =
     (Inr (BatchedTensor (Dense \<lparr>storage = 0, storage_offset = 0, sizes = [3,2],
                                strides = [2,1], options = 0\<rparr>) 0 1),
      \<lparr>rt = \<lparr>heap = [[Some 2, Some 3, Some 4, Some 2, Some 3, Some 4]], generator = 6\<rparr>,
       dynamicLayerStack = [example_layer Different 3], tls_excluded = {},
       calls = [CallOp (2, 5, [3,2], 0)]\<rparr>)
   \<and> RANDINT_BATCH_RULE example_randint 5 [2] 0 (example_world Same 3 []) =
     (Inr (Dense \<lparr>storage = 0, storage_offset = 0, sizes = [2], strides = [1], options = 0\<rparr>),
      \<lparr>rt = \<lparr>heap = [[Some 0, Some 1]], generator = 2\<rparr>,
       dynamicLayerStack = [example_layer Same 3], tls_excluded = {},
       calls = [CallOp (5, [2], 0)]\<rparr>)"
proof -
  let ?ld = "example_layer Different 3"
  let ?ls = "example_layer Same 3"
  let ?wl = "example_world Different 3 [] :: (nat, int \<times> int \<times> int list \<times> nat) world"
  let ?wi = "example_world Same 3 [] :: (nat, int \<times> int list \<times> nat) world"
  let ?rl = "example_randint_low (2, 5, requested_shape ?ld [2], 0) (rt ?wl)"
  let ?ri = "example_randint (5, requested_shape ?ls [2], 0) (rt ?wi)"
  have 1: "RANDINT_LOW_BATCH_RULE example_randint_low 2 5 [2] 0 ?wl =
        (tagged ?ld (fst ?rl),
         ?wl\<lparr>rt := snd ?rl, calls := calls ?wl @ [CallOp (2, 5, requested_shape ?ld [2], 0)]\<rparr>)"
    using randint_wrappers_forward[where wl = ?wl and l = ?ld and opl = example_randint_low
        and low = 2 and high = 5 and shape = "[2]" and e = 0 and rl = "fst ?rl" and rtl = "snd ?rl"
        and wi = ?wi and opi = example_randint and ri = "fst ?ri" and rti = "snd ?ri"
        and ?Func1.0 = "\<lambda>high shape e. ATEN_FN example_randint (high, shape, e)"
        and ?Func2.0 = "\<lambda>low high shape e. ATEN_FN example_randint_low (low, high, shape, e)"]
    by simp
  have 2: "RANDINT_BATCH_RULE example_randint 5 [2] 0 ?wi =
        (tagged ?ls (fst ?ri),
         ?wi\<lparr>rt := snd ?ri, calls := calls ?wi @ [CallOp (5, requested_shape ?ls [2], 0)]\<rparr>)"
    using randint_wrappers_forward[where wi = ?wi and l = ?ls and opi = example_randint
        and high = 5 and shape = "[2]" and e = 0 and ri = "fst ?ri" and rti = "snd ?ri"
        and wl = ?wl and opl = example_randint_low and low = 2 and rl = "fst ?rl" and rtl = "snd ?rl"
        and ?Func1.0 = "\<lambda>high shape e. ATEN_FN example_randint (high, shape, e)"
        and ?Func2.0 = "\<lambda>low high shape e. ATEN_FN example_randint_low (low, high, shape, e)"]
    by simp
  show ?thesis
    unfolding 1 2
    by (simp add: example_randint_def example_randint_low_def fresh_tensor_def
        makeBatched_def requested_shape_def tagged_def example_world_def upt_conv_Cons)
qed

section \<open>Mode Error\<close>

text \<open>
  C2.  Mode \<open>Error\<close>: every registered rule (shape-taking, both \<^verbatim>\<open>randint\<close> forms,
  in-place, permutation) ends with \<open>RandomnessModeError\<close> and leaves the world as it
  found it: the real operator is not called, nothing is drawn, nothing is allocated.
  (The in-place rule moves the target's batch dimension before it looks at the mode;
  on a well-formed target that cannot fail.)  \<open>check_randomness\<close> itself throws in mode
  \<open>Error\<close> and does nothing in the modes \<open>Same\<close> and \<open>Different\<close>.
\<close>

theorem error_mode_aborts_before_operator:
  "(active_layer w l \<and> randomness l = Error \<longrightarrow>
      RANDOM_BATCH_RULE op shape e w = (Inl RandomnessModeError, w))
   \<and> (active_layer wi l \<and> randomness l = Error \<longrightarrow>
      RANDINT_BATCH_RULE opi high shape e wi = (Inl RandomnessModeError, wi))
   \<and> (active_layer wl l \<and> randomness l = Error \<longrightarrow>
      RANDINT_LOW_BATCH_RULE opl low high shape e wl = (Inl RandomnessModeError, wl))
   \<and> (active_layer ws l \<and> randomness l = Error \<and> wf_tensor self \<longrightarrow>
      RANDOM_INPLACE_BATCH_RULE ops self e ws = (Inl RandomnessModeError, ws))
   \<and> (active_layer wp l \<and> randomness l = Error \<longrightarrow>
      RANDPERM_BATCH_RULE opp n e wp = (Inl RandomnessModeError, wp))
   \<and> check_randomness Error wc = (Inl RandomnessModeError, wc)
   \<and> check_randomness Same wc = (Inr (), wc)
   \<and> check_randomness Different wc = (Inr (), wc)"
  by (simp add: RANDOM_BATCH_RULE_def RandomBatchRuleHelper_apply_def
      RANDINT_BATCH_RULE_def RandIntBatchRuleHelper_apply_def
      RANDINT_LOW_BATCH_RULE_def RandIntLowBatchRuleHelper_apply_def
      RANDOM_INPLACE_BATCH_RULE_def RandomInplaceBatchRuleHelper_apply_def
      RANDPERM_BATCH_RULE_def RandpermBatchRuleHelper_apply_def
      rule_error[of _ l] inplace_error[of _ l] randperm_error[of _ l]
      check_randomness_run)

text \<open>
  The scenario of the specification: mode \<open>Error\<close>, \<^verbatim>\<open>randn([2])\<close> raises
  \<open>RandomnessModeError\<close> and no tensor is produced; so do the other four kinds of call,
  the in-place one on a batched target whose batch dimension is not the first.
\<close>

theorem error_mode_aborts_before_operator_witness:
  "RANDOM_BATCH_RULE example_rand [2] 0 (example_world Error 3 []) =
     (Inl RandomnessModeError, example_world Error 3 [])
   \<and> RANDINT_BATCH_RULE example_randint 5 [2] 0 (example_world Error 3 []) =
     (Inl RandomnessModeError, example_world Error 3 [])
   \<and> RANDINT_LOW_BATCH_RULE example_randint_low 2 5 [2] 0 (example_world Error 3 []) =
     (Inl RandomnessModeError, example_world Error 3 [])
   \<and> RANDOM_INPLACE_BATCH_RULE example_random_inplace
        (BatchedTensor (Dense \<lparr>storage = 0, storage_offset = 0, sizes = [2,3],
                                strides = [3,1], options = 0\<rparr>) 1 1)
        0 (example_world Error 3 [replicate 6 None]) =
     (Inl RandomnessModeError, example_world Error 3 [replicate 6 None])
   \<and> RANDPERM_BATCH_RULE example_randperm 4 0 (example_world Error 3 []) =
     (Inl RandomnessModeError, example_world Error 3 [])
   \<and> check_randomness Error (example_world Error 3 [] :: (nat, unit) world) =
     (Inl RandomnessModeError, example_world Error 3 [])
   \<and> check_randomness Same (example_world Same 3 [] :: (nat, unit) world) =
     (Inr (), example_world Same 3 [])
   \<and> check_randomness Different (example_world Different 3 [] :: (nat, unit) world) =
     (Inr (), example_world Different 3 [])"
proof -
  note th = error_mode_aborts_before_operator[where l = "example_layer Error 3"
      and w = "example_world Error 3 []" and op = example_rand and shape = "[2]" and e = 0
      and wi = "example_world Error 3 []" and opi = example_randint and high = 5
      and wl = "example_world Error 3 []" and opl = example_randint_low and low = 2
      and ws = "example_world Error 3 [replicate 6 None]" and ops = example_random_inplace
      and self = "BatchedTensor (Dense \<lparr>storage = 0, storage_offset = 0, sizes = [2,3],
                                strides = [3,1], options = 0\<rparr>) 1 1"
      and wp = "example_world Error 3 []" and opp = example_randperm and n = 4]
  have "check_randomness Same (example_world Same 3 [] :: (nat, unit) world) =
          (Inr (), example_world Same 3 [])"
    using th[where wc = "example_world Same 3 [] :: (nat, unit) world"] by simp
  moreover have "check_randomness Different (example_world Different 3 [] :: (nat, unit) world) =
          (Inr (), example_world Different 3 [])"
    using th[where wc = "example_world Different 3 [] :: (nat, unit) world"] by simp
  ultimately show ?thesis
    using th[where wc = "example_world Error 3 [] :: (nat, unit) world"] by simp
qed

section \<open>The in-place operators\<close>

text \<open>
  C4.  Mode \<open>Different\<close> and a target that is not batched at the current layer: the
  in-place rule ends with \<open>UnsupportedInplaceRandomnessError\<close> and leaves the world as
  it found it: no real operator has run, no scratch tensor was allocated, and the
  target's storage is untouched.
\<close>

theorem inplace_different_unbatched_aborts:
  assumes "active_layer w l" "randomness l = Different"
    "snd (unwrapTensorAtLevel self (layerId l)) = None"
  shows "RANDOM_INPLACE_BATCH_RULE op self e w = (Inl UnsupportedInplaceRandomnessError, w)"
proof -
  obtain v where u: "unwrapTensorAtLevel self (layerId l) = (v, None)"
    using assms(3) by (cases "unwrapTensorAtLevel self (layerId l)") simp
  have sv: "moveBatchDimToFront v None = Inr v" by (simp add: moveBatchDimToFront_def)
  show ?thesis
    unfolding RANDOM_INPLACE_BATCH_RULE_def RandomInplaceBatchRuleHelper_apply_def
      inplace_body[OF assms(1) u sv]
    using assms(2) by (intro guard_leave_unchanged) (simp add: run_simps)
qed

text \<open>
  \<^verbatim>\<open>random_\<close> on a plain vector, and on a tensor batched at another level (2, where
  the current layer is 1), in mode \<open>Different\<close>.
\<close>

theorem inplace_different_unbatched_aborts_witness:
  "RANDOM_INPLACE_BATCH_RULE example_random_inplace
     (Dense \<lparr>storage = 0, storage_offset = 0, sizes = [2], strides = [1], options = 0\<rparr>)
     0 (example_world Different 3 [[Some 7, Some 8]]) =
     (Inl UnsupportedInplaceRandomnessError, example_world Different 3 [[Some 7, Some 8]])
   \<and> RANDOM_INPLACE_BATCH_RULE example_random_inplace
     (BatchedTensor (Dense \<lparr>storage = 0, storage_offset = 0, sizes = [2], strides = [1],
                           options = 0\<rparr>) 0 2)
     0 (example_world Different 3 [[Some 7, Some 8]]) =
     (Inl UnsupportedInplaceRandomnessError, example_world Different 3 [[Some 7, Some 8]])"
  using inplace_different_unbatched_aborts[where l = "example_layer Different 3"
      and w = "example_world Different 3 [[Some 7, Some 8]]" and op = example_random_inplace
      and e = 0
      and self = "Dense \<lparr>storage = 0, storage_offset = 0, sizes = [2], strides = [1], options = 0\<rparr>"]
    inplace_different_unbatched_aborts[where l = "example_layer Different 3"
      and w = "example_world Different 3 [[Some 7, Some 8]]" and op = example_random_inplace
      and e = 0
      and self = "BatchedTensor (Dense \<lparr>storage = 0, storage_offset = 0, sizes = [2],
                                         strides = [1], options = 0\<rparr>) 0 2"]
  by (simp add: unwrapTensorAtLevel_def)

text \<open>
  C7.  The two remaining cases, mode \<open>Same\<close> with a target not batched at the current
  layer and mode \<open>Different\<close> with a batched one: the rule calls the real in-place
  operator once, on the unwrapped value with its batch dimension (if any) moved to the
  front, and returns the handle it was given; an exception of the operator passes
  through.
\<close>

theorem inplace_runs_on_unwrapped_value:
  assumes "active_layer w l"
    "unwrapTensorAtLevel self (layerId l) = (v, bd)"
    "moveBatchDimToFront v bd = Inr sv"
    "(randomness l = Same \<and> bd = None) \<or> (randomness l = Different \<and> bd \<noteq> None)"
    "op (sv, e) (rt w) = (r, rt')"
  shows "RANDOM_INPLACE_BATCH_RULE op self e w =
           (map_sum id (\<lambda>_. self) r, w\<lparr>rt := rt', calls := calls w @ [CallOp (sv, e)]\<rparr>)"
proof -
  have "bindM (ATEN_FN op (sv, e)) (\<lambda>_. returnM self) (entered w) =
        (map_sum id (\<lambda>_. self) r, (entered w)\<lparr>rt := rt', calls := calls w @ [CallOp (sv, e)]\<rparr>)"
    using assms(5) by (simp add: bindM_ATEN_FN)
  then show ?thesis
    unfolding RANDOM_INPLACE_BATCH_RULE_def RandomInplaceBatchRuleHelper_apply_def
      inplace_body[OF assms(1) assms(2) assms(3)]
    using assms(4) by (intro guard_leave) (auto simp add: run_simps)
qed

text \<open>
  Mode \<open>Different\<close>, a target of physical shape \<open>[2,3]\<close> batched at dimension 1: the
  operator runs on the view of shape \<open>[3,2]\<close> (strides \<open>[1,3]\<close>) of the same storage
  and fills it, one draw per cell.  Mode \<open>Same\<close>, a plain vector: the operator runs on
  the vector itself.
\<close>

theorem inplace_runs_on_unwrapped_value_witness:
  "RANDOM_INPLACE_BATCH_RULE example_random_inplace
     (BatchedTensor (Dense \<lparr>storage = 0, storage_offset = 0, sizes = [2,3], strides = [3,1],
                           options = 0\<rparr>) 1 1)
     0 (example_world Different 3 [replicate 6 None]) =
     (Inr (BatchedTensor (Dense \<lparr>storage = 0, storage_offset = 0, sizes = [2,3], strides = [3,1],
                                options = 0\<rparr>) 1 1),
      \<lparr>rt = \<lparr>heap = [[Some 0, Some 2, Some 4, Some 1, Some 3, Some 5]], generator = 6\<rparr>,
       dynamicLayerStack = [example_layer Different 3], tls_excluded = {},
       calls = [CallOp (Dense \<lparr>storage = 0, storage_offset = 0, sizes = [3,2], strides = [1,3],
                                 options = 0\<rparr>, 0)]\<rparr>)
   \<and> RANDOM_INPLACE_BATCH_RULE example_random_inplace
     (Dense \<lparr>storage = 0, storage_offset = 0, sizes = [2], strides = [1], options = 0\<rparr>)
     0 (example_world Same 3 [[Some 7, Some 8]]) =
     (Inr (Dense \<lparr>storage = 0, storage_offset = 0, sizes = [2], strides = [1], options = 0\<rparr>),
      \<lparr>rt = \<lparr>heap = [[Some 0, Some 1]], generator = 2\<rparr>,
       dynamicLayerStack = [example_layer Same 3], tls_excluded = {},
       calls = [CallOp (Dense \<lparr>storage = 0, storage_offset = 0, sizes = [2], strides = [1],
                                 options = 0\<rparr>, 0)]\<rparr>)"
proof -
  let ?v = "Dense \<lparr>storage = 0, storage_offset = 0, sizes = [2,3], strides = [3,1], options = 0\<rparr>"
  let ?sv = "Dense \<lparr>storage = 0, storage_offset = 0, sizes = [3,2], strides = [1,3], options = 0\<rparr>"
  let ?u = "Dense \<lparr>storage = 0, storage_offset = 0, sizes = [2], strides = [1], options = 0\<rparr>"
  let ?wd = "example_world Different 3 [replicate 6 None] :: (nat, Tensor \<times> nat) world"
  let ?ws = "example_world Same 3 [[Some 7, Some 8]] :: (nat, Tensor \<times> nat) world"
  have i1: "indices [3,2] = [[0, 0], [0, 1], [1, 0], [1, 1], [2, 0], [2, 1]]"
    by (simp add: upt_conv_Cons)
  have o1: "example_random_inplace (?sv, 0) (rt ?wd) =
      (Inr ?sv, \<lparr>heap = [[Some 0, Some 2, Some 4, Some 1, Some 3, Some 5]], generator = 6\<rparr>)"
    by (simp add: example_random_inplace_def fill_from_def i1 write_cell_def offset_of_def
        numeral_eq_Suc)
  have o2: "example_random_inplace (?u, 0) (rt ?ws) =
      (Inr ?u, \<lparr>heap = [[Some 0, Some 1]], generator = 2\<rparr>)"
    by (simp add: example_random_inplace_def fill_from_def write_cell_def offset_of_def
        upt_conv_Cons)
  have m1: "moveBatchDimToFront ?v (Some 1) = Inr ?sv"
    by (simp add: moveBatchDimToFront_def to_front_def remove_dim_def)
  have m2: "moveBatchDimToFront ?u None = Inr ?u"
    by (simp add: moveBatchDimToFront_def)
  have 1: "RANDOM_INPLACE_BATCH_RULE example_random_inplace (BatchedTensor ?v 1 1) 0 ?wd =
      (map_sum id (\<lambda>_. BatchedTensor ?v 1 1) (Inr ?sv),
       ?wd\<lparr>rt := \<lparr>heap = [[Some 0, Some 2, Some 4, Some 1, Some 3, Some 5]], generator = 6\<rparr>,
           calls := calls ?wd @ [CallOp (?sv, 0)]\<rparr>)"
    using inplace_runs_on_unwrapped_value[where l = "example_layer Different 3"
          and w = ?wd and self = "BatchedTensor ?v 1 1" and v = ?v and bd = "Some 1"
          and sv = ?sv and op = example_random_inplace and e = 0 and r = "Inr ?sv"
          and rt' = "\<lparr>heap = [[Some 0, Some 2, Some 4, Some 1, Some 3, Some 5]], generator = 6\<rparr>"]
      m1 o1
    by (simp add: unwrapTensorAtLevel_def)
  have 2: "RANDOM_INPLACE_BATCH_RULE example_random_inplace ?u 0 ?ws =
      (map_sum id (\<lambda>_. ?u) (Inr ?u),
       ?ws\<lparr>rt := \<lparr>heap = [[Some 0, Some 1]], generator = 2\<rparr>,
           calls := calls ?ws @ [CallOp (?u, 0)]\<rparr>)"
    using inplace_runs_on_unwrapped_value[where l = "example_layer Same 3"
          and w = ?ws and self = ?u and v = ?u and bd = None
          and sv = ?u and op = example_random_inplace and e = 0 and r = "Inr ?u"
          and rt' = "\<lparr>heap = [[Some 0, Some 1]], generator = 2\<rparr>"]
      m2 o2
    by (simp add: unwrapTensorAtLevel_def)
  show ?thesis
    unfolding 1 2 by (simp add: example_world_def)
qed

section \<open>The transform layer is only read\<close>

text \<open>
  C9.  Whatever the operator, the arguments, the mode and the world, and however the
  call ends (a value or an exception), each registered rule leaves the stack of
  transform layers exactly as it found it: no layer is pushed, popped or changed, so
  the active layer has the batch size, identifier and mode it had.
\<close>

theorem rules_keep_layer_stack:
  "dynamicLayerStack (snd (RANDOM_BATCH_RULE op shape e w)) = dynamicLayerStack w
   \<and> dynamicLayerStack (snd (RANDINT_BATCH_RULE opi high shape e wi)) = dynamicLayerStack wi
   \<and> dynamicLayerStack (snd (RANDINT_LOW_BATCH_RULE opl low high shape e wl)) = dynamicLayerStack wl
   \<and> dynamicLayerStack (snd (RANDOM_INPLACE_BATCH_RULE ops self e ws)) = dynamicLayerStack ws
   \<and> dynamicLayerStack (snd (RANDPERM_BATCH_RULE opp n e wp)) = dynamicLayerStack wp"
proof -
  have 1: "keeps_layers (RANDOM_BATCH_RULE op shape e)"
    unfolding RANDOM_BATCH_RULE_def RandomBatchRuleHelper_apply_def
    by (rule keeps_random_batching_rule) simp
  have 2: "keeps_layers (RANDINT_BATCH_RULE opi high shape e)"
    unfolding RANDINT_BATCH_RULE_def RandIntBatchRuleHelper_apply_def
    by (rule keeps_random_batching_rule) (simp add: rand_int_wrapper_def split: prod.splits)
  have 3: "keeps_layers (RANDINT_LOW_BATCH_RULE opl low high shape e)"
    unfolding RANDINT_LOW_BATCH_RULE_def RandIntLowBatchRuleHelper_apply_def
    by (rule keeps_random_batching_rule) (simp add: rand_int_low_wrapper_def split: prod.splits)
  have 4: "keeps_layers (RANDOM_INPLACE_BATCH_RULE ops self e)"
    unfolding RANDOM_INPLACE_BATCH_RULE_def RandomInplaceBatchRuleHelper_apply_def
    by (rule keeps_random_inplace_batching_rule) simp
  have 5: "keeps_layers (RANDPERM_BATCH_RULE opp n e)"
    unfolding RANDPERM_BATCH_RULE_def RandpermBatchRuleHelper_apply_def
    by (rule keeps_randperm_batching_rule) simp
  from 1 2 3 4 5 show ?thesis by (simp add: keeps_layers_def)
qed

text \<open>The stack of the sample world after one call of each kind, in three modes.\<close>

theorem rules_keep_layer_stack_witness:
  "dynamicLayerStack (snd (RANDOM_BATCH_RULE example_rand [4,4] 0 (example_world Different 3 []))) =
     [\<lparr>layerId = 1, batchSize = 3, randomness = Different\<rparr>]
   \<and> dynamicLayerStack (snd (RANDINT_BATCH_RULE example_randint 5 [2] 0 (example_world Same 3 []))) =
     [\<lparr>layerId = 1, batchSize = 3, randomness = Same\<rparr>]
   \<and> dynamicLayerStack (snd (RANDINT_LOW_BATCH_RULE example_randint_low 2 5 [2] 0
        (example_world Error 3 []))) =
     [\<lparr>layerId = 1, batchSize = 3, randomness = Error\<rparr>]
   \<and> dynamicLayerStack (snd (RANDOM_INPLACE_BATCH_RULE example_random_inplace
        (Dense \<lparr>storage = 0, storage_offset = 0, sizes = [2], strides = [1], options = 0\<rparr>) 0
        (example_world Different 3 [[Some 7, Some 8]]))) =
     [\<lparr>layerId = 1, batchSize = 3, randomness = Different\<rparr>]
   \<and> dynamicLayerStack (snd (RANDPERM_BATCH_RULE example_randperm 4 0 (example_world Different 3 []))) =
     [\<lparr>layerId = 1, batchSize = 3, randomness = Different\<rparr>]"
  using rules_keep_layer_stack[where op = example_rand and shape = "[4,4]" and e = 0
      and w = "example_world Different 3 []"
      and opp = example_randperm and n = 4 and wp = "example_world Different 3 []"
      and ops = example_random_inplace and ws = "example_world Different 3 [[Some 7, Some 8]]"
      and self = "Dense \<lparr>storage = 0, storage_offset = 0, sizes = [2], strides = [1], options = 0\<rparr>"
      and opi = example_randint and wi = "example_world Same 3 []" and high = 5
      and opl = example_randint_low and wl = "example_world Error 3 []" and low = 2]
    rules_keep_layer_stack[where op = example_rand and shape = "[2]" and e = 0
      and w = "example_world Different 3 []"
      and opp = example_randperm and n = 4 and wp = "example_world Different 3 []"
      and ops = example_random_inplace and ws = "example_world Different 3 [[Some 7, Some 8]]"
      and self = "Dense \<lparr>storage = 0, storage_offset = 0, sizes = [2], strides = [1], options = 0\<rparr>"
      and opi = example_randint and wi = "example_world Same 3 []" and high = 5
      and opl = example_randint_low and wl = "example_world Error 3 []" and low = 2]
  by (simp add: example_layer_def)

section \<open>The permutation operator\<close>

text \<open>
  C10.  Mode \<open>Different\<close> with batch size 0: the permutation rule is, under its guard,
  the stack primitive applied to the empty list with its result wrapped; the real
  operator is not called (the only call recorded is the one to stack, on \<open>[]\<close>) and
  the tensor runtime is as before.  What the call returns is what stack makes of an
  empty list.
\<close>

theorem randperm_different_empty_batch:
  assumes "active_layer w l" "randomness l = Different" "batchSize l = 0"
  shows "RANDPERM_BATCH_RULE op n e w =
           ExcludeDispatchKeyGuard kVmapModeKey
             (bindM (at_stack []) (\<lambda>stacked. returnM (makeBatched stacked 0 (layerId l)))) w
         \<and> calls (snd (RANDPERM_BATCH_RULE op n e w)) = calls w @ [CallStack []]
         \<and> rt (snd (RANDPERM_BATCH_RULE op n e w)) = rt w"
proof -
  have eq: "RANDPERM_BATCH_RULE op n e w =
           ExcludeDispatchKeyGuard kVmapModeKey
             (bindM (at_stack []) (\<lambda>stacked. returnM (makeBatched stacked 0 (layerId l)))) w"
    unfolding RANDPERM_BATCH_RULE_def RandpermBatchRuleHelper_apply_def
      randperm_different[OF assms(1,2)] guard_entered
    by (simp add: assms(3) bindM_def std_vector_run max_size_nonneg randperm_loop.simps)
  show ?thesis
    unfolding eq by (simp add: guard_entered at_stack_nil bindM_def)
qed

text \<open>\<^verbatim>\<open>randperm(4)\<close> under batch size 0: stack is called on no tensors, and refuses.\<close>

theorem randperm_different_empty_batch_witness:
  "RANDPERM_BATCH_RULE example_randperm 4 0 (example_world Different 0 []) =
     (Inl (RuntimeError ''stack expects a non-empty TensorList''),
      \<lparr>rt = \<lparr>heap = [], generator = 0\<rparr>, dynamicLayerStack = [example_layer Different 0],
       tls_excluded = {}, calls = [CallStack []]\<rparr>)"
proof -
  have "RANDPERM_BATCH_RULE example_randperm 4 0 (example_world Different 0 []) =
           ExcludeDispatchKeyGuard kVmapModeKey
             (bindM (at_stack []) (\<lambda>stacked. returnM
                (makeBatched stacked 0 (layerId (example_layer Different 0)))))
             (example_world Different 0 [])"
    using randperm_different_empty_batch[where l = "example_layer Different 0"
        and w = "example_world Different 0 []" and op = example_randperm and n = 4 and e = 0]
    by simp
  then show ?thesis
    by (simp add: ExcludeDispatchKeyGuard_def bindM_def at_stack_nil example_world_def)
qed

section \<open>The in-place rule in mode Same on a batched target\<close>




text \<open>
  C5, for batch sizes \<open>B\<close> from 1 up to what a vector of tensors can hold
  (\<open>1 \<le> B \<le> max_size\<close>).  Mode \<open>Different\<close>, real operator succeeding \<open>B\<close>
  times: the rule makes exactly the \<open>B\<close> calls of \<open>draws\<close> (in index order, each on the
  runtime the previous one left), then one call of stack on the \<open>B\<close> results in that
  order, and returns the stack wrapped at batch dimension 0 with the layer's
  identifier.  When each result is a dense vector of \<open>n\<close> cells holding a permutation
  of \<open>[0, n)\<close>, the stack has shape \<open>[B, n]\<close> and its row \<open>i\<close> is the \<open>i\<close>-th draw,
  a permutation.
\<close>

theorem randperm_different_stacks_draws:
  assumes "active_layer w l" "randomness l = Different" "0 < batchSize l"
    "draws op (n, e) (nat (batchSize l)) (rt w) = (Inr (map Dense tis), rt')"
    "\<forall>t \<in> set tis. sizes t = [nat n] \<and> is_permutation n (contents (heap rt') t)"
    "batchSize l \<le> max_size"
  shows "RANDPERM_BATCH_RULE op n e w =
      (Inr (BatchedTensor (Dense (stacked (heap rt') tis)) 0 (layerId l)),
       w\<lparr>rt := rt'\<lparr>heap := heap rt' @ [concat (map (contents (heap rt')) tis)]\<rparr>,
         calls := calls w @ replicate (nat (batchSize l)) (CallOp (n, e)) @ [CallStack (map Dense tis)]\<rparr>)
    \<and> sizes (stacked (heap rt') tis) = [nat (batchSize l), nat n]
    \<and> (\<forall>i < nat (batchSize l).
          contents (heap rt' @ [concat (map (contents (heap rt')) tis)])
            (select_dim 0 i (stacked (heap rt') tis)) = contents (heap rt') (tis ! i)
          \<and> is_permutation n (contents (heap rt') (tis ! i)))"
proof -
  let ?B = "nat (batchSize l)"
  have len: "length tis = ?B" using draws_length[OF assms(4)] by simp
  then have ne: "tis \<noteq> []" using assms(3) by auto
  have sz: "\<forall>t \<in> set tis. sizes t = [nat n]" using assms(5) by blast
  let ?w1 = "(entered w)\<lparr>rt := rt', calls := calls w @ replicate ?B (CallOp (n, e))\<rparr>"
  have loop: "randperm_loop (\<lambda>n extra_args. ATEN_FN op (n, extra_args)) n e (batchSize l) 0
                (replicate ?B UndefinedTensor) (entered w) = (Inr (map Dense tis), ?w1)"
    using loop_draws[where w = "entered w" and idx = 0 and bs = "batchSize l" and k = ?B
        and sl = "replicate ?B UndefinedTensor" and op = op and n = n and e = e
        and ts = "map Dense tis" and rt' = rt'] assms(3,4)
    by simp
  have stack: "at_stack (map Dense tis) ?w1 =
     (Inr (Dense (stacked (heap rt') tis)),
      (entered w)\<lparr>rt := rt'\<lparr>heap := heap rt' @ [concat (map (contents (heap rt')) tis)]\<rparr>,
        calls := calls w @ replicate ?B (CallOp (n, e)) @ [CallStack (map Dense tis)]\<rparr>)"
    using at_stack_dense[OF ne sz, of ?w1] by simp
  have 1: "RANDPERM_BATCH_RULE op n e w =
      (Inr (BatchedTensor (Dense (stacked (heap rt') tis)) 0 (layerId l)),
       w\<lparr>rt := rt'\<lparr>heap := heap rt' @ [concat (map (contents (heap rt')) tis)]\<rparr>,
         calls := calls w @ replicate ?B (CallOp (n, e)) @ [CallStack (map Dense tis)]\<rparr>)"
    unfolding RANDPERM_BATCH_RULE_def RandpermBatchRuleHelper_apply_def
      randperm_different[OF assms(1,2)]
    using assms(3,6) loop stack
    by (intro guard_leave) (simp add: bindM_def std_vector_run returnM_def makeBatched_def)
  have 2: "sizes (stacked (heap rt') tis) = [?B, nat n]"
    using ne sz len by (cases tis) (simp_all add: stacked_def)
  have 3: "\<forall>i < ?B. contents (heap rt' @ [concat (map (contents (heap rt')) tis)])
            (select_dim 0 i (stacked (heap rt') tis)) = contents (heap rt') (tis ! i)
          \<and> is_permutation n (contents (heap rt') (tis ! i))"
    using stacked_row[OF _ sz] assms(5) len by simp
  from 1 2 3 show ?thesis by blast
qed

text \<open>
  \<^verbatim>\<open>randperm(4)\<close> under batch size 3: three calls, three different rotations of
  \<open>0 1 2 3\<close>, stacked in call order; row 1 is the second draw.
\<close>

theorem randperm_different_stacks_draws_witness:
  "RANDPERM_BATCH_RULE example_randperm 4 0 (example_world Different 3 []) =
     (Inr (BatchedTensor (Dense \<lparr>storage = 3, storage_offset = 0, sizes = [3,4], strides = [4,1],
                                options = 0\<rparr>) 0 1),
      \<lparr>rt = \<lparr>heap = [[Some 0, Some 1, Some 2, Some 3],
                      [Some 1, Some 2, Some 3, Some 0],
                      [Some 2, Some 3, Some 0, Some 1],
                      [Some 0, Some 1, Some 2, Some 3, Some 1, Some 2, Some 3, Some 0,
                       Some 2, Some 3, Some 0, Some 1]],
             generator = 3\<rparr>,
       dynamicLayerStack = [example_layer Different 3], tls_excluded = {},
       calls = [CallOp (4, 0), CallOp (4, 0), CallOp (4, 0),
                CallStack [Dense \<lparr>storage = 0, storage_offset = 0, sizes = [4], strides = [1], options = 0\<rparr>,
                           Dense \<lparr>storage = 1, storage_offset = 0, sizes = [4], strides = [1], options = 0\<rparr>,
                           Dense \<lparr>storage = 2, storage_offset = 0, sizes = [4], strides = [1], options = 0\<rparr>]]\<rparr>)
   \<and> contents [[Some 0, Some 1, Some 2, Some 3],
                [Some 1, Some 2, Some 3, Some 0],
                [Some 2, Some 3, Some 0, Some 1],
                [Some 0, Some 1, Some 2, Some 3, Some 1, Some 2, Some 3, Some 0,
                 Some 2, Some 3, Some 0, Some 1]]
        (select_dim 0 1 \<lparr>storage = 3, storage_offset = 0, sizes = [3,4], strides = [4,1], options = 0\<rparr>)
      = [Some 1, Some 2, Some 3, Some 0]"
proof -
  let ?t0 = "\<lparr>storage = 0, storage_offset = 0, sizes = [4], strides = [1], options = 0\<rparr> :: TensorImpl"
  let ?t1 = "\<lparr>storage = 1, storage_offset = 0, sizes = [4], strides = [1], options = 0\<rparr> :: TensorImpl"
  let ?t2 = "\<lparr>storage = 2, storage_offset = 0, sizes = [4], strides = [1], options = 0\<rparr> :: TensorImpl"
  let ?h = "[[Some 0, Some 1, Some 2, Some 3], [Some 1, Some 2, Some 3, Some 0],
             [Some 2, Some 3, Some 0, Some 1]] :: scalar option list list"
  let ?w = "example_world Different 3 [] :: (nat, int \<times> nat) world"
  have d: "draws example_randperm (4, 0) (nat (batchSize (example_layer Different 3))) (rt ?w) =
        (Inr (map Dense [?t0, ?t1, ?t2]), \<lparr>heap = ?h, generator = 3\<rparr>)"
    by (simp add: example_randperm_def fresh_tensor_def numeral_3_eq_3 upt_conv_Cons)
  have c: "contents ?h ?t0 = [Some 0, Some 1, Some 2, Some 3]"
    "contents ?h ?t1 = [Some 1, Some 2, Some 3, Some 0]"
    "contents ?h ?t2 = [Some 2, Some 3, Some 0, Some 1]"
    by code_simp+
  have p: "\<forall>t \<in> set [?t0, ?t1, ?t2]. sizes t = [nat 4] \<and> is_permutation 4 (contents (heap \<lparr>heap = ?h, generator = 3::nat\<rparr>) t)"
    by code_simp
  have m: "batchSize (example_layer Different 3) \<le> max_size"
    by (simp add: max_size_def)
  note th = randperm_different_stacks_draws[where w = ?w and l = "example_layer Different 3" and op = example_randperm
      and n = 4 and e = 0 and tis = "[?t0, ?t1, ?t2]" and rt' = "\<lparr>heap = ?h, generator = 3\<rparr>",
      OF _ _ _ d p m]
  have s: "stacked ?h [?t0, ?t1, ?t2] =
      \<lparr>storage = 3, storage_offset = 0, sizes = [3,4], strides = [4,1], options = 0\<rparr>"
    by code_simp
  have cc: "concat (map (contents ?h) [?t0, ?t1, ?t2]) =
      [Some 0, Some 1, Some 2, Some 3, Some 1, Some 2, Some 3, Some 0, Some 2, Some 3, Some 0, Some 1]"
    by code_simp
  have rep: "replicate 3 (CallOp (4::int, 0::nat)) = [CallOp (4, 0), CallOp (4, 0), CallOp (4, 0)]"
    by code_simp
  have r: "RANDPERM_BATCH_RULE example_randperm 4 0 ?w =
      (Inr (BatchedTensor (Dense (stacked ?h [?t0, ?t1, ?t2])) 0 1),
       ?w\<lparr>rt := \<lparr>heap = ?h @ [concat (map (contents ?h) [?t0, ?t1, ?t2])], generator = 3\<rparr>,
         calls := calls ?w @ replicate 3 (CallOp (4, 0)) @ [CallStack (map Dense [?t0, ?t1, ?t2])]\<rparr>)"
    using th by simp
  have "contents (?h @ [concat (map (contents ?h) [?t0, ?t1, ?t2])])
            (select_dim 0 1 (stacked ?h [?t0, ?t1, ?t2])) = contents ?h ?t1"
    using th by simp
  then have row: "contents (?h @ [concat (map (contents ?h) [?t0, ?t1, ?t2])])
            (select_dim 0 1 (stacked ?h [?t0, ?t1, ?t2])) = [Some 1, Some 2, Some 3, Some 0]"
    by (simp only: c)
  show ?thesis
    using row unfolding r s cc rep by (simp add: example_world_def)
qed

text \<open>
  The claim as the specification has it covers \<open>B = 0\<close>, where it fails: the loop does
  not run, stack is given no tensor to read the row length \<open>n\<close> from, and what comes
  back is its refusal, not a batched tensor of shape \<open>[0, 4]\<close>.
\<close>

theorem randperm_different_empty_batch_no_tensor:
  "fst (RANDPERM_BATCH_RULE example_randperm 4 0 (example_world Different 0 [])) =
     Inl (RuntimeError ''stack expects a non-empty TensorList'')"
  by (simp add: RANDPERM_BATCH_RULE_def RandpermBatchRuleHelper_apply_def
      randperm_different[where l = "example_layer Different 0"]
      guard_entered bindM_def std_vector_run max_size_nonneg randperm_loop.simps at_stack_nil)

text \<open>
  Beyond \<open>max_size\<close> the vector cannot be built: the rule ends in \<open>LengthError\<close>
  before any call of the real operator, and the world is as it was.
\<close>

lemma randperm_different_oversized_batch:
  assumes "active_layer w l" "randomness l = Different" "max_size < batchSize l"
  shows "RANDPERM_BATCH_RULE op n e w = (Inl LengthError, w)"
  unfolding RANDPERM_BATCH_RULE_def RandpermBatchRuleHelper_apply_def
    randperm_different[OF assms(1,2)]
  using assms(3)
  by (intro guard_leave_unchanged) (simp add: bindM_def std_vector_run)

end
